theory Spec2Isabelle
  imports Complex_Main
begin

section \<open>Values of the untyped wire payload\<close>

text \<open>
  The driver works on values that the transport has already decoded and that the source
  types as \<^verbatim>\<open>any\<close>. A \<^verbatim>\<open>number\<close> is an IEEE double in the source. Here a finite number
  is \<open>Fin i\<close> when it is an integer and \<open>Frac q\<close>, a rational, otherwise (pixel sizes and
  font metrics need not be whole); the three non-finite doubles are kept, because a
  geometry that was never measured is \<^verbatim>\<open>NaN\<close> and \<^verbatim>\<open>NaN === NaN\<close> is false. Comparisons
  go by the value, so they do not depend on which of the two forms a finite number has.
  Arithmetic is exact, where the source rounds the result to the nearest double.
\<close>

datatype jsnum = Fin int | Frac rat | PosInf | NegInf | NaN

datatype jsval =
    JUndefined
  | JNull
  | JBool bool
  | JNum jsnum
  | JStr string
  | JArr "jsval list"
  | JObj "(string \<times> jsval) list"

text \<open>
  What the source can throw or reject with: the \<^verbatim>\<open>TypeError\<close> of reading a property of
  \<^verbatim>\<open>undefined\<close> or \<^verbatim>\<open>null\<close> (or calling what is not a function), an \<^verbatim>\<open>Error\<close> built
  with a message, and the failure of a request on the transport. \<open>IllTyped\<close> marks a wire
  value that does not have the \<^verbatim>\<open>number\<close> type the source annotates it with: the
  coercions that JavaScript applies to such a value are not modelled, and no statement
  below is about such input.
\<close>

datatype error = TypeError | JsError string | TransportError jsval | IllTyped

definition UnsupportedVersion :: error where
  "UnsupportedVersion = JsError ''Unsupported version of Neovim.''"

fun bindE :: "error + 'a \<Rightarrow> ('a \<Rightarrow> error + 'b) \<Rightarrow> error + 'b" where
  "bindE (Inl e) f = Inl e"
| "bindE (Inr x) f = f x"

fun mapE :: "('a \<Rightarrow> error + 'b) \<Rightarrow> 'a list \<Rightarrow> error + 'b list" where
  "mapE f [] = Inr []"
| "mapE f (x # xs) = bindE (f x) (\<lambda>y. bindE (mapE f xs) (\<lambda>ys. Inr (y # ys)))"

subsection \<open>Numbers\<close>

text \<open>The finite number with a given value, in the form that says whether it is whole.\<close>

definition number :: "rat \<Rightarrow> jsnum" where
  "number q = (if q = of_int \<lfloor>q\<rfloor> then Fin \<lfloor>q\<rfloor> else Frac q)"

text \<open>\<^verbatim>\<open>x > y\<close>, \<^verbatim>\<open>x === y\<close>, \<^verbatim>\<open>x - y\<close>, \<^verbatim>\<open>x + y\<close> and \<^verbatim>\<open>Math.floor(x / y)\<close> on numbers.\<close>

fun js_gt :: "jsnum \<Rightarrow> jsnum \<Rightarrow> bool" where
  "js_gt NaN _ = False"
| "js_gt _ NaN = False"
| "js_gt (Fin a) (Fin b) = (a > b)"
| "js_gt (Fin a) (Frac q) = (of_int a > q)"
| "js_gt (Frac p) (Fin b) = (p > of_int b)"
| "js_gt (Frac p) (Frac q) = (p > q)"
| "js_gt PosInf PosInf = False"
| "js_gt PosInf _ = True"
| "js_gt _ PosInf = False"
| "js_gt NegInf _ = False"
| "js_gt _ NegInf = True"

fun js_strict_eq :: "jsnum \<Rightarrow> jsnum \<Rightarrow> bool" where
  "js_strict_eq NaN _ = False"
| "js_strict_eq _ NaN = False"
| "js_strict_eq (Fin a) (Frac q) = (of_int a = q)"
| "js_strict_eq (Frac p) (Fin b) = (p = of_int b)"
| "js_strict_eq a b = (a = b)"

fun js_minus :: "jsnum \<Rightarrow> jsnum \<Rightarrow> jsnum" where
  "js_minus NaN _ = NaN"
| "js_minus _ NaN = NaN"
| "js_minus (Fin a) (Fin b) = Fin (a - b)"
| "js_minus (Fin a) (Frac q) = number (of_int a - q)"
| "js_minus (Frac p) (Fin b) = number (p - of_int b)"
| "js_minus (Frac p) (Frac q) = number (p - q)"
| "js_minus PosInf PosInf = NaN"
| "js_minus NegInf NegInf = NaN"
| "js_minus PosInf _ = PosInf"
| "js_minus NegInf _ = NegInf"
| "js_minus _ PosInf = NegInf"
| "js_minus _ NegInf = PosInf"


text \<open>The floor of the quotient of two finite values, the divisor possibly zero.\<close>

definition floorQuotient :: "rat \<Rightarrow> rat \<Rightarrow> jsnum" where
  "floorQuotient a b =
     (if b \<noteq> 0 then Fin \<lfloor>a / b\<rfloor>
      else if a > 0 then PosInf else if a < 0 then NegInf else NaN)"

fun js_floor_div :: "jsnum \<Rightarrow> jsnum \<Rightarrow> jsnum" where
  "js_floor_div NaN _ = NaN"
| "js_floor_div _ NaN = NaN"
| "js_floor_div (Fin a) (Fin b) =
     (if b \<noteq> 0 then Fin (a div b)
      else if a > 0 then PosInf else if a < 0 then NegInf else NaN)"
| "js_floor_div (Fin a) (Frac q) = floorQuotient (of_int a) q"
| "js_floor_div (Frac p) (Fin b) = floorQuotient p (of_int b)"
| "js_floor_div (Frac p) (Frac q) = floorQuotient p q"
| "js_floor_div (Fin a) _ = Fin 0"
| "js_floor_div (Frac p) _ = Fin 0"
| "js_floor_div PosInf (Fin b) = (if b < 0 then NegInf else PosInf)"
| "js_floor_div PosInf (Frac q) = (if q < 0 then NegInf else PosInf)"
| "js_floor_div NegInf (Fin b) = (if b < 0 then PosInf else NegInf)"
| "js_floor_div NegInf (Frac q) = (if q < 0 then PosInf else NegInf)"
| "js_floor_div _ _ = NaN"

subsection \<open>Reading values\<close>

text \<open>\<^verbatim>\<open>xs[i]\<close> on an array: \<^verbatim>\<open>undefined\<close> out of range, also for \<^verbatim>\<open>xs[xs.length - 1]\<close>
  on the empty array.\<close>

definition nth_or_undefined :: "jsval list \<Rightarrow> nat \<Rightarrow> jsval" where
  "nth_or_undefined xs i = (if i < length xs then xs ! i else JUndefined)"

definition last_or_undefined :: "jsval list \<Rightarrow> jsval" where
  "last_or_undefined xs = (if xs = [] then JUndefined else last xs)"

fun lookup :: "(string \<times> jsval) list \<Rightarrow> string \<Rightarrow> jsval" where
  "lookup [] k = JUndefined"
| "lookup ((k', v) # fs) k = (if k' = k then v else lookup fs k)"

fun decimal :: "nat \<Rightarrow> string" where
  "decimal n =
     (if n < 10 then [char_of (48 + n)] else decimal (n div 10) @ [char_of (48 + n mod 10)])"

declare decimal.simps [simp del]

text \<open>\<^verbatim>\<open>v[i]\<close> on any value: a \<^verbatim>\<open>TypeError\<close> on \<^verbatim>\<open>undefined\<close> and \<^verbatim>\<open>null\<close>, the
  element of an array, the character of a string, the field named by the index of an
  object, and \<^verbatim>\<open>undefined\<close> otherwise.\<close>

fun index :: "jsval \<Rightarrow> nat \<Rightarrow> error + jsval" where
  "index JUndefined i = Inl TypeError"
| "index JNull i = Inl TypeError"
| "index (JArr xs) i = Inr (nth_or_undefined xs i)"
| "index (JStr s) i = Inr (if i < length s then JStr [s ! i] else JUndefined)"
| "index (JObj fs) i = Inr (lookup fs (decimal i))"
| "index (JBool b) i = Inr JUndefined"
| "index (JNum n) i = Inr JUndefined"

text \<open>\<^verbatim>\<open>v.name\<close>, for the names the source reads (none of them is a built-in property of a
  string, an array, a number or a boolean).\<close>

fun getProp :: "jsval \<Rightarrow> string \<Rightarrow> error + jsval" where
  "getProp JUndefined k = Inl TypeError"
| "getProp JNull k = Inl TypeError"
| "getProp (JObj fs) k = Inr (lookup fs k)"
| "getProp (JArr xs) k = Inr JUndefined"
| "getProp (JStr s) k = Inr JUndefined"
| "getProp (JBool b) k = Inr JUndefined"
| "getProp (JNum n) k = Inr JUndefined"

text \<open>\<^verbatim>\<open>!!v\<close>.\<close>

fun truthy :: "jsval \<Rightarrow> bool" where
  "truthy JUndefined = False"
| "truthy JNull = False"
| "truthy (JBool b) = b"
| "truthy (JNum n) = (n \<noteq> NaN \<and> \<not> js_strict_eq n (Fin 0))"
| "truthy (JStr s) = (s \<noteq> [])"
| "truthy (JArr xs) = True"
| "truthy (JObj fs) = True"

text \<open>The elements an array destructuring \<^verbatim>\<open>const [x, y] = v\<close> draws from: arrays and
  strings are iterable, nothing else on the wire is.\<close>

fun iterate :: "jsval \<Rightarrow> error + jsval list" where
  "iterate (JArr xs) = Inr xs"
| "iterate (JStr s) = Inr (map (\<lambda>c. JStr [c]) s)"
| "iterate _ = Inl TypeError"

text \<open>\<^verbatim>\<open>v.map(f)\<close>: only an array has the method.\<close>

fun arrayMap :: "jsval \<Rightarrow> (jsval \<Rightarrow> error + 'b) \<Rightarrow> error + 'b list" where
  "arrayMap (JArr xs) f = mapE f xs"
| "arrayMap _ f = Inl TypeError"

section \<open>Data model\<close>

record INeovimApiVersion =
  major :: int
  minor :: int
  patch :: int

record IPosition =
  row :: int
  column :: int

text \<open>\<^verbatim>\<open>IPixelPosition\<close>, with fields \<^verbatim>\<open>x\<close> and \<^verbatim>\<open>y\<close>.\<close>

record IPixelPosition =
  pixel_x :: int
  pixel_y :: int

text \<open>One entry of the popup menu (word, kind, menu, info), and the menu as
  \<^verbatim>\<open>popupmenu_show\<close> decodes it (items, selectedIndex, row, col).\<close>

datatype INeovimCompletionItem = CompletionItem jsval jsval jsval jsval

datatype INeovimCompletionInfo = CompletionInfo "INeovimCompletionItem list" jsval jsval jsval

text \<open>The action creators of the \<^verbatim>\<open>Actions\<close> module are outside this file; an action is
  the creator's name with the arguments the driver passes to it.\<close>

datatype action =
    CursorGoto jsval jsval
  | Put "jsval list"
  | SetScrollRegion jsval jsval jsval jsval
  | Scroll jsval
  | SetHighlight bool bool bool bool bool jsval jsval
  | Resize jsval jsval
  | ClearToEndOfLine
  | Clear
  | UpdateBackground jsval
  | UpdateForeground jsval
  | ChangeMode jsval
  | SetFont string string jsnum jsnum jsnum

text \<open>The argument of \<^verbatim>\<open>_onError\<close>: a thrown or rejected value, or a message.\<close>

datatype errval = ErrObj error | ErrStr string

text \<open>The typed event feeds of the driver, one constructor per \<^verbatim>\<open>Event\<close> field that
  the modelled code dispatches on.\<close>

datatype signal =
    OnRedrawComplete
  | OnModeChanged jsval
  | OnSelectPopupMenu jsval
  | OnHidePopupMenu
  | OnShowPopupMenu INeovimCompletionInfo
  | OnLeave
  | OnError errval
  | OnYank jsval
  | OnOniCommand jsval
  | OnBufferUpdate jsval jsval
  | OnBufferUpdateIncremental jsval jsval jsval
  | OnDirectoryChanged string
  | OnScroll jsval

text \<open>
  Everything the driver does to the outside, in the order it does it: the untyped
  \<^verbatim>\<open>emit\<close> channels, the typed dispatches, the autocommand notifier, the log, the
  requests written to the transport, the scroll timer and the bell. \<open>LogWarnAbout p v\<close>
  is the warning whose text is the prefix \<open>p\<close> followed by the value \<open>v\<close> as a string.
  \<open>OnBufferUpdateIncremental\<close> carries context, line number, line contents.
\<close>

datatype effect =
    EmitAction action
  | EmitSetTitle jsval
  | EmitTablineUpdate jsval "(jsval \<times> jsval) list"
  | EmitEvent jsval jsval
  | Dispatch signal
  | NotifyAutocommand jsval jsval
  | LogInfo string
  | LogVerbose string
  | LogWarn string
  | LogWarnAbout string jsval
  | LogError errval
  | ConsoleLog INeovimApiVersion
  | Request string "jsval list"
  | SetTimeout
  | PlayAudio jsval

text \<open>The promise stored in \<^verbatim>\<open>_initPromise\<close>.\<close>

datatype promise = Pending | Resolved | Rejected error

text \<open>
  The fields of \<^verbatim>\<open>NeovimInstance\<close> that the modelled code reads or writes. A field the
  constructor leaves \<^verbatim>\<open>undefined\<close> is \<open>False\<close> where it is only tested for truth
  (\<^verbatim>\<open>_isLeaving\<close>, \<^verbatim>\<open>_pendingScrollTimeout\<close>), \<open>None\<close> for \<^verbatim>\<open>_initPromise\<close>, and \<open>NaN\<close>
  where it is a number (in arithmetic and under \<^verbatim>\<open>===\<close> with a number, \<^verbatim>\<open>undefined\<close>
  behaves as \<^verbatim>\<open>NaN\<close>). \<open>initPromiseThens\<close> holds the (columns, rows) captured by the
  callbacks that \<^verbatim>\<open>_resizeInternal\<close> has attached to a pending \<^verbatim>\<open>_initPromise\<close>;
  \<open>trace\<close> is the sequence of effects so far.
\<close>

record state =
  isLeaving :: bool
  fontWidthInPixels :: jsnum
  fontHeightInPixels :: jsnum
  lastHeightInPixels :: jsnum
  lastWidthInPixels :: jsnum
  rows :: jsnum
  cols :: jsnum
  initPromise :: "promise option"
  initPromiseThens :: "(jsnum \<times> jsnum) list"
  pendingScrollTimeout :: bool
  trace :: "effect list"

definition constructor :: "jsnum \<Rightarrow> jsnum \<Rightarrow> state" where
  "constructor widthInPixels heightInPixels =
     \<lparr> isLeaving = False, fontWidthInPixels = NaN, fontHeightInPixels = NaN,
       lastHeightInPixels = heightInPixels, lastWidthInPixels = widthInPixels,
       rows = NaN, cols = NaN, initPromise = None, initPromiseThens = [],
       pendingScrollTimeout = False, trace = [] \<rparr>"

text \<open>
  The collaborators the code calls and this file does not define: the configuration
  values \<^verbatim>\<open>oni.audio.bellUrl\<close> and \<^verbatim>\<open>debug.fixedSize\<close> (\<open>None\<close> when \<^verbatim>\<open>hasValue\<close> is
  false, else its rows and columns), and \<^verbatim>\<open>path.normalize\<close>.
\<close>

record environment =
  bellUrl :: jsval
  fixedSize :: "(jsnum \<times> jsnum) option"
  normalize :: "string \<Rightarrow> string"

text \<open>
  The transport (\<^verbatim>\<open>Session\<close>, outside this file): how the engine answers a request, a
  failure being a rejected promise. The answer to \<^verbatim>\<open>nvim_get_api_info\<close> is given as the
  version that \<^verbatim>\<open>getApiVersion\<close> reads from it at \<^verbatim>\<open>[1].version\<close>.
\<close>

record session =
  apiVersion :: "error + INeovimApiVersion"
  respond :: "string \<Rightarrow> jsval list \<Rightarrow> error + jsval"

section \<open>The driver\<close>

definition emit :: "effect \<Rightarrow> state \<Rightarrow> state" where
  "emit e s = s\<lparr>trace := trace s @ [e]\<rparr>"

definition request :: "session \<Rightarrow> string \<Rightarrow> jsval list \<Rightarrow> state \<Rightarrow> (error + jsval) \<times> state" where
  "request sess name args s = (respond sess name args, emit (Request name args) s)"

definition command :: "session \<Rightarrow> string \<Rightarrow> state \<Rightarrow> (error + jsval) \<times> state" where
  "command sess cmd s =
     request sess ''nvim_command'' [JStr cmd]
       (emit (LogVerbose (''[NeovimInstance] Executing command: '' @ cmd)) s)"

definition callFunction :: "session \<Rightarrow> string \<Rightarrow> jsval list \<Rightarrow> state \<Rightarrow> (error + jsval) \<times> state" where
  "callFunction sess functionName args s =
     request sess ''nvim_call_function'' [JStr functionName, JArr args] s"

definition onError :: "errval \<Rightarrow> state \<Rightarrow> state" where
  "onError err s = emit (Dispatch (OnError err)) (emit (LogError err) s)"

definition cursorPosition :: "state \<Rightarrow> IPosition" where
  "cursorPosition s = \<lparr> row = 0, column = 0 \<rparr>"

definition screenToPixels :: "state \<Rightarrow> jsnum \<Rightarrow> jsnum \<Rightarrow> IPixelPosition" where
  "screenToPixels s r c = \<lparr> pixel_x = 0, pixel_y = 0 \<rparr>"

subsection \<open>Attach negotiation\<close>

definition getStartupOptionsForVersion :: "int \<Rightarrow> int \<Rightarrow> int \<Rightarrow> error + jsval" where
  "getStartupOptionsForVersion ma mi pa =
     (if ma \<ge> 0 \<and> mi \<ge> 2 \<and> pa \<ge> 1 then
        Inr (JObj [(''rgb'', JBool True), (''popupmenu_external'', JBool True),
                   (''ext_tabline'', JBool True)])
      else if ma = 0 \<and> mi = 2 then
        Inr (JObj [(''rgb'', JBool True), (''popupmenu_external'', JBool True)])
      else Inl UnsupportedVersion)"

definition getApiVersion :: "session \<Rightarrow> state \<Rightarrow> (error + INeovimApiVersion) \<times> state" where
  "getApiVersion sess s = (apiVersion sess, emit (Request ''nvim_get_api_info'' []) s)"

definition attachUI :: "session \<Rightarrow> jsnum \<Rightarrow> jsnum \<Rightarrow> state \<Rightarrow> (error + unit) \<times> state" where
  "attachUI sess columns rws s =
     (case getApiVersion sess s of
        (Inl e, s1) \<Rightarrow> (Inl e, s1)
      | (Inr version, s1) \<Rightarrow>
          (let s2 = emit (ConsoleLog version) s1 in
           case getStartupOptionsForVersion (major version) (minor version) (patch version) of
             Inl e \<Rightarrow> (Inl e, s2)
           | Inr startupOptions \<Rightarrow>
               (case request sess ''nvim_ui_attach'' [JNum columns, JNum rws, startupOptions] s2 of
                  (Inl e, s3) \<Rightarrow> (Inl e, s3)
                | (Inr _, s3) \<Rightarrow> (Inr (), s3))))"

subsection \<open>The redraw interpreter\<close>

definition dispatchScrollEvent :: "state \<Rightarrow> state" where
  "dispatchScrollEvent s =
     (if pendingScrollTimeout s then s
      else (emit SetTimeout s)\<lparr>pendingScrollTimeout := True\<rparr>)"

text \<open>The callback of the scroll timer: fetch the context, dispatch it, clear the slot.\<close>

definition scrollTimeoutFired :: "session \<Rightarrow> state \<Rightarrow> (error + unit) \<times> state" where
  "scrollTimeoutFired sess s =
     (case callFunction sess ''OniGetContext'' [] s of
        (Inl e, s1) \<Rightarrow> (Inl e, s1)
      | (Inr evt, s1) \<Rightarrow>
          (Inr (), (emit (Dispatch (OnScroll evt)) s1)\<lparr>pendingScrollTimeout := False\<rparr>))"

text \<open>The call \<^verbatim>\<open>Actions.setHighlight(...)\<close> of the \<^verbatim>\<open>highlight_set\<close> case, from
  \<^verbatim>\<open>highlightInfo\<close>.\<close>

definition setHighlight :: "jsval \<Rightarrow> error + action" where
  "setHighlight highlightInfo =
     bindE (getProp highlightInfo ''bold'') (\<lambda>bold.
     bindE (getProp highlightInfo ''italic'') (\<lambda>italic.
     bindE (getProp highlightInfo ''reverse'') (\<lambda>reverse.
     bindE (getProp highlightInfo ''underline'') (\<lambda>underline.
     bindE (getProp highlightInfo ''undercurl'') (\<lambda>undercurl.
     bindE (getProp highlightInfo ''foreground'') (\<lambda>foreground.
     bindE (getProp highlightInfo ''background'') (\<lambda>background.
     Inr (SetHighlight (truthy bold) (truthy italic) (truthy reverse) (truthy underline)
            (truthy undercurl) foreground background))))))))"

text \<open>The item mapping of \<^verbatim>\<open>popupmenu_show\<close> and the tab mapping of \<^verbatim>\<open>tabline_update\<close>.\<close>

definition mapItem :: "jsval \<Rightarrow> error + INeovimCompletionItem" where
  "mapItem item =
     bindE (iterate item) (\<lambda>i.
     Inr (CompletionItem (nth_or_undefined i 0) (nth_or_undefined i 1)
            (nth_or_undefined i 2) (nth_or_undefined i 3)))"

definition mapTab :: "jsval \<Rightarrow> error + jsval \<times> jsval" where
  "mapTab t =
     bindE (getProp t ''tab'') (\<lambda>tab.
     bindE (getProp tab ''id'') (\<lambda>tabId.
     bindE (getProp t ''name'') (\<lambda>name.
     Inr (tabId, name))))"

text \<open>
  The body of the \<^verbatim>\<open>switch\<close> in \<^verbatim>\<open>_handleNotification\<close>: \<open>cmd\<close> is \<^verbatim>\<open>a[0]\<close> and \<open>a\<close> is
  \<^verbatim>\<open>a.slice(1)\<close>, the argument tuples. Every case evaluates the arguments of its call
  before it emits, so a case that throws leaves the state as it was.
\<close>

definition redrawCommand :: "environment \<Rightarrow> jsval \<Rightarrow> jsval list \<Rightarrow> state \<Rightarrow> error + state" where
  "redrawCommand env cmd a s =
     (if cmd = JStr ''cursor_goto'' then
        bindE (index (nth_or_undefined a 0) 0) (\<lambda>r.
        bindE (index (nth_or_undefined a 0) 1) (\<lambda>c.
        Inr (emit (EmitAction (CursorGoto r c)) s)))
      else if cmd = JStr ''put'' then
        bindE (mapE (\<lambda>v. index v 0) a) (\<lambda>charactersToPut.
        Inr (emit (EmitAction (Put charactersToPut)) s))
      else if cmd = JStr ''set_scroll_region'' then
        (let param = nth_or_undefined a 0 in
         bindE (index param 0) (\<lambda>p0.
         bindE (index param 1) (\<lambda>p1.
         bindE (index param 2) (\<lambda>p2.
         bindE (index param 3) (\<lambda>p3.
         Inr (emit (EmitAction (SetScrollRegion p0 p1 p2 p3)) s))))))
      else if cmd = JStr ''scroll'' then
        bindE (index (nth_or_undefined a 0) 0) (\<lambda>n.
        Inr (dispatchScrollEvent (emit (EmitAction (Scroll n)) s)))
      else if cmd = JStr ''highlight_set'' then
        bindE (index (last_or_undefined a) 0) (\<lambda>highlightInfo.
        bindE (setHighlight highlightInfo) (\<lambda>act.
        Inr (emit (EmitAction act) s)))
      else if cmd = JStr ''resize'' then
        bindE (index (nth_or_undefined a 0) 0) (\<lambda>w.
        bindE (index (nth_or_undefined a 0) 1) (\<lambda>h.
        Inr (emit (EmitAction (Resize w h)) s)))
      else if cmd = JStr ''set_title'' then
        bindE (index (nth_or_undefined a 0) 0) (\<lambda>title.
        Inr (emit (EmitSetTitle title) s))
      else if cmd = JStr ''set_icon'' then Inr s
      else if cmd = JStr ''eol_clear'' then Inr (emit (EmitAction ClearToEndOfLine) s)
      else if cmd = JStr ''clear'' then Inr (emit (EmitAction Clear) s)
      else if cmd = JStr ''mouse_on'' then Inr s
      else if cmd = JStr ''update_bg'' then
        bindE (index (nth_or_undefined a 0) 0) (\<lambda>c.
        Inr (emit (EmitAction (UpdateBackground c)) s))
      else if cmd = JStr ''update_fg'' then
        bindE (index (nth_or_undefined a 0) 0) (\<lambda>c.
        Inr (emit (EmitAction (UpdateForeground c)) s))
      else if cmd = JStr ''mode_change'' then
        bindE (index (last_or_undefined a) 0) (\<lambda>newMode.
        Inr (emit (Dispatch (OnModeChanged newMode)) (emit (EmitAction (ChangeMode newMode)) s)))
      else if cmd = JStr ''popupmenu_select'' then
        bindE (index (nth_or_undefined a 0) 0) (\<lambda>i.
        Inr (emit (Dispatch (OnSelectPopupMenu i)) s))
      else if cmd = JStr ''popupmenu_hide'' then Inr (emit (Dispatch OnHidePopupMenu) s)
      else if cmd = JStr ''popupmenu_show'' then
        bindE (iterate (nth_or_undefined a 0)) (\<lambda>d.
        bindE (arrayMap (nth_or_undefined d 0) mapItem) (\<lambda>mappedItems.
        Inr (emit (Dispatch (OnShowPopupMenu
               (CompletionInfo mappedItems (nth_or_undefined d 1) (nth_or_undefined d 2)
                  (nth_or_undefined d 3)))) s)))
      else if cmd = JStr ''tabline_update'' then
        bindE (iterate (nth_or_undefined a 0)) (\<lambda>d.
        bindE (arrayMap (nth_or_undefined d 1) mapTab) (\<lambda>mappedTabs.
        bindE (getProp (nth_or_undefined d 0) ''id'') (\<lambda>currentTabId.
        Inr (emit (EmitTablineUpdate currentTabId mappedTabs) s))))
      else if cmd = JStr ''bell'' then
        Inr (if truthy (bellUrl env) then emit (PlayAudio (bellUrl env)) s else s)
      else Inr (emit (LogWarnAbout ''Unhandled command: '' cmd) s))"

text \<open>
  One round of the \<^verbatim>\<open>forEach\<close>: \<^verbatim>\<open>a[0]\<close> and \<^verbatim>\<open>a.slice(1)\<close>. An array gives its head and
  its tail. A string gives its first character and a string: no case of the switch is a
  single character, so the default case runs, which does not read the tuples. Any other
  value has no \<^verbatim>\<open>slice\<close> method (or is \<^verbatim>\<open>undefined\<close> or \<^verbatim>\<open>null\<close>).
\<close>

definition handleCommand :: "environment \<Rightarrow> jsval \<Rightarrow> state \<Rightarrow> error + state" where
  "handleCommand env a s =
     (case a of
        JArr xs \<Rightarrow> redrawCommand env (nth_or_undefined xs 0) (drop 1 xs) s
      | JStr str \<Rightarrow> bindE (index (JStr str) 0) (\<lambda>cmd. redrawCommand env cmd [] s)
      | _ \<Rightarrow> Inl TypeError)"

text \<open>The \<^verbatim>\<open>forEach\<close>: a throw ends it, and what the earlier rounds did stays done.\<close>

fun forEachCommand :: "environment \<Rightarrow> jsval list \<Rightarrow> state \<Rightarrow> (error + unit) \<times> state" where
  "forEachCommand env [] s = (Inr (), s)"
| "forEachCommand env (a # as) s =
     (case handleCommand env a s of
        Inl e \<Rightarrow> (Inl e, s)
      | Inr s' \<Rightarrow> forEachCommand env as s')"

definition handleNotification :: "environment \<Rightarrow> jsval \<Rightarrow> state \<Rightarrow> (error + unit) \<times> state" where
  "handleNotification env args s =
     (case args of
        JArr batches \<Rightarrow> forEachCommand env batches s
      | _ \<Rightarrow> (Inl TypeError, s))"

subsection \<open>Buffer synchronisation and the plugin notifications\<close>

definition MAX_LINES_FOR_BUFFER_UPDATE :: jsnum where
  "MAX_LINES_FOR_BUFFER_UPDATE = Fin 5000"

text \<open>
  \<^verbatim>\<open>_onFullBufferUpdate\<close> is an \<^verbatim>\<open>async\<close> function: the first component of the result is
  how its promise settles (\<open>Inl\<close> is a rejection), the second the state once it has.
\<close>

definition onFullBufferUpdate ::
    "session \<Rightarrow> jsval \<Rightarrow> jsnum \<Rightarrow> jsnum \<Rightarrow> state \<Rightarrow> (error + unit) \<times> state" where
  "onFullBufferUpdate sess context startRange endRange s =
     (if js_gt endRange MAX_LINES_FOR_BUFFER_UPDATE then (Inr (), s)
      else
        case getProp context ''bufferNumber'' of
          Inl e \<Rightarrow> (Inl e, s)
        | Inr bufferNumber \<Rightarrow>
            (case request sess ''nvim_buf_get_lines''
                    [bufferNumber, JNum (js_minus startRange (Fin 1)), JNum endRange, JBool False] s of
               (Inl e, s1) \<Rightarrow> (Inl e, s1)
             | (Inr bufferLines, s1) \<Rightarrow>
                 (Inr (), emit (Dispatch (OnBufferUpdate context bufferLines)) s1)))"

text \<open>
  \<^verbatim>\<open>_updateProcessDirectory\<close>, with \<^verbatim>\<open>getCurrentWorkingDirectory\<close> and \<^verbatim>\<open>eval\<close>
  inlined. Its caller goes on after the call, so the function is given in two parts: the
  request it writes before it suspends, and what it does with the answer
  (\<^verbatim>\<open>path.normalize\<close> throws on what is not a string).
\<close>

definition updateProcessDirectory_request :: "state \<Rightarrow> state" where
  "updateProcessDirectory_request s = emit (Request ''nvim_eval'' [JStr ''getcwd()'']) s"

definition updateProcessDirectory_resume ::
    "environment \<Rightarrow> error + jsval \<Rightarrow> state \<Rightarrow> (error + unit) \<times> state" where
  "updateProcessDirectory_resume env answer s =
     (case answer of
        Inl e \<Rightarrow> (Inl e, s)
      | Inr (JStr currentWorkingDirectory) \<Rightarrow>
          (Inr (), emit (Dispatch (OnDirectoryChanged (normalize env currentWorkingDirectory))) s)
      | Inr _ \<Rightarrow> (Inl TypeError, s))"

text \<open>
  The branches of the \<^verbatim>\<open>oni_plugin_notify\<close> case, after \<^verbatim>\<open>pluginArgs.shift()\<close>:
  \<open>pluginMethod\<close> is the element shifted out and \<open>rest\<close> what \<^verbatim>\<open>args[0]\<close> holds from
  then on. The promises of \<^verbatim>\<open>_onFullBufferUpdate\<close> and \<^verbatim>\<open>_updateProcessDirectory\<close> are
  dropped by the caller, so only their state is kept. The two range arguments are
  annotated \<^verbatim>\<open>number\<close>. A handler is run together with the continuations of the
  requests it issues, each placed after the statements that follow the call; events that
  arrive between a request and its answer are not interleaved.
\<close>

definition pluginNotify ::
    "environment \<Rightarrow> session \<Rightarrow> jsval \<Rightarrow> jsval list \<Rightarrow> state \<Rightarrow> (error + unit) \<times> state" where
  "pluginNotify env sess pluginMethod rest s =
     (if pluginMethod = JStr ''buffer_update'' then
        (case (nth_or_undefined rest 1, nth_or_undefined rest 2) of
           (JNum startRange, JNum endRange) \<Rightarrow>
             (Inr (), snd (onFullBufferUpdate sess (nth_or_undefined rest 0) startRange endRange s))
         | _ \<Rightarrow> (Inl IllTyped, s))
      else if pluginMethod = JStr ''oni_yank'' then
        (Inr (), emit (Dispatch (OnYank (nth_or_undefined rest 0))) s)
      else if pluginMethod = JStr ''oni_command'' then
        (Inr (), emit (Dispatch (OnOniCommand (nth_or_undefined rest 0))) s)
      else if pluginMethod = JStr ''event'' then
        (let eventName = nth_or_undefined rest 0;
             eventContext = nth_or_undefined rest 1;
             s1 = (if eventName = JStr ''DirChanged'' then updateProcessDirectory_request s
                   else if eventName = JStr ''VimLeave'' then
                     emit (Dispatch OnLeave) (s\<lparr>isLeaving := True\<rparr>)
                   else s);
             s2 = emit (EmitEvent eventName eventContext)
                    (emit (NotifyAutocommand eventName eventContext) s1)
         in (Inr (),
             if eventName = JStr ''DirChanged'' then
               snd (updateProcessDirectory_resume env
                      (respond sess ''nvim_eval'' [JStr ''getcwd()'']) s2)
             else s2))
      else if pluginMethod = JStr ''incremental_buffer_update'' then
        (let eventContext = nth_or_undefined rest 0;
             lineContents = nth_or_undefined rest 1;
             lineNumber = nth_or_undefined rest 2
         in (Inr (), emit (Dispatch (OnBufferUpdateIncremental eventContext lineNumber lineContents)) s))
      else (Inr (), emit (LogWarnAbout ''Unknown event from oni_plugin_notify: '' pluginMethod) s))"

text \<open>
  The handler of the transport's \<^verbatim>\<open>notification\<close> event. \<^verbatim>\<open>pluginArgs\<close> is the object
  \<^verbatim>\<open>args[0]\<close> itself, so after \<^verbatim>\<open>shift\<close> (which only an array has) \<^verbatim>\<open>args[0][k]\<close> is element
  \<open>k\<close> of what is left.
\<close>

definition onNotification ::
    "environment \<Rightarrow> session \<Rightarrow> jsval \<Rightarrow> jsval \<Rightarrow> state \<Rightarrow> (error + unit) \<times> state" where
  "onNotification env sess method args s =
     (if method = JStr ''redraw'' then
        (case handleNotification env args s of
           (Inl e, s1) \<Rightarrow> (Inl e, s1)
         | (Inr _, s1) \<Rightarrow> (Inr (), emit (Dispatch OnRedrawComplete) s1))
      else if method = JStr ''oni_plugin_notify'' then
        (case index args 0 of
           Inl e \<Rightarrow> (Inl e, s)
         | Inr (JArr pluginArgs) \<Rightarrow>
             pluginNotify env sess (nth_or_undefined pluginArgs 0) (drop 1 pluginArgs) s
         | Inr _ \<Rightarrow> (Inl TypeError, s))
      else (Inr (), emit (LogWarnAbout ''Unknown notification: '' method) s))"

definition onRequest :: "jsval \<Rightarrow> state \<Rightarrow> state" where
  "onRequest method s = emit (LogWarnAbout ''Unhandled request: '' method) s"

definition onDisconnect :: "state \<Rightarrow> state" where
  "onDisconnect s =
     (if \<not> isLeaving s then
        onError (ErrStr ''Neovim disconnected. This likely means that the Neovim process crashed.'') s
      else s)"

subsection \<open>Geometry\<close>

text \<open>\<^verbatim>\<open>_getSize\<close>: rows, then columns.\<close>

definition getSize :: "state \<Rightarrow> jsnum \<times> jsnum" where
  "getSize s =
     (js_floor_div (lastHeightInPixels s) (fontHeightInPixels s),
      js_floor_div (lastWidthInPixels s) (fontWidthInPixels s))"

text \<open>
  \<^verbatim>\<open>_resizeInternal\<close>. A callback attached to a resolved promise runs (and issues the
  request, whose promise nobody reads); one attached to a pending promise waits in
  \<open>initPromiseThens\<close>; one attached to a rejected promise never runs.
\<close>

definition resizeInternal :: "environment \<Rightarrow> jsnum \<Rightarrow> jsnum \<Rightarrow> state \<Rightarrow> state" where
  "resizeInternal env rws columns s =
     (let (rws, columns, s0) =
            (case fixedSize env of
               Some (fixedRows, fixedColumns) \<Rightarrow>
                 (fixedRows, fixedColumns,
                  emit (LogWarn ''Overriding screen size based on debug.fixedSize'') s)
             | None \<Rightarrow> (rws, columns, s))
      in if js_strict_eq rws (rows s0) \<and> js_strict_eq columns (cols s0) then s0
         else
           (let s1 = s0\<lparr>rows := rws, cols := columns\<rparr> in
            case initPromise s1 of
              None \<Rightarrow> s1
            | Some Pending \<Rightarrow> s1\<lparr>initPromiseThens := initPromiseThens s1 @ [(columns, rws)]\<rparr>
            | Some Resolved \<Rightarrow> emit (Request ''nvim_ui_try_resize'' [JNum columns, JNum rws]) s1
            | Some (Rejected e) \<Rightarrow> s1))"

definition resize :: "environment \<Rightarrow> jsnum \<Rightarrow> jsnum \<Rightarrow> state \<Rightarrow> state" where
  "resize env widthInPixels heightInPixels s =
     (let s1 = s\<lparr>lastWidthInPixels := widthInPixels, lastHeightInPixels := heightInPixels\<rparr>;
          (rws, columns) = getSize s1
      in resizeInternal env rws columns s1)"


subsection \<open>Startup\<close>

text \<open>
  \<^verbatim>\<open>start\<close> in two moments. \<open>start_begin\<close> is the call itself: \<^verbatim>\<open>_initPromise\<close> becomes a
  fresh pending promise. \<open>start_settle\<close> is the callback given to
  \<^verbatim>\<open>startNeovim(...).then\<close> and the settling of \<^verbatim>\<open>_initPromise\<close> with its outcome, after
  which the waiting resize callbacks run. \<open>spawned\<close> is the outcome of \<^verbatim>\<open>startNeovim\<close>.
  The rejection handler of the attach calls \<^verbatim>\<open>_onError\<close> and returns, so the promise it
  belongs to is fulfilled.
\<close>

definition start_begin :: "state \<Rightarrow> state" where
  "start_begin s = s\<lparr>initPromise := Some Pending, initPromiseThens := []\<rparr>"

definition settle :: "error + unit \<Rightarrow> state \<Rightarrow> (error + unit) \<times> state" where
  "settle outcome s =
     (case outcome of
        Inl e \<Rightarrow> (Inl e, s\<lparr>initPromise := Some (Rejected e), initPromiseThens := []\<rparr>)
      | Inr _ \<Rightarrow>
          (Inr (),
           foldl (\<lambda>t (columns, rws). emit (Request ''nvim_ui_try_resize'' [JNum columns, JNum rws]) t)
             (s\<lparr>initPromise := Some Resolved, initPromiseThens := []\<rparr>)
             (initPromiseThens s)))"

definition start_settle :: "error + session \<Rightarrow> state \<Rightarrow> (error + unit) \<times> state" where
  "start_settle spawned s =
     (case spawned of
        Inl e \<Rightarrow> settle (Inl e) s
      | Inr sess \<Rightarrow>
          (let s1 = emit (LogInfo ''NeovimInstance: Neovim started'') s;
               (rws, columns) = getSize s1;
               s2 = s1\<lparr>rows := rws, cols := columns\<rparr>
           in case attachUI sess columns rws s2 of
                (Inr _, s3) \<Rightarrow>
                  (case command sess ''set title'' (emit (LogInfo ''Attach success'') s3) of
                     (Inl e, s4) \<Rightarrow> settle (Inl e) s4
                   | (Inr _, s4) \<Rightarrow>
                       (case callFunction sess ''OniConnect'' [] s4 of
                          (Inl e, s5) \<Rightarrow> settle (Inl e) s5
                        | (Inr _, s5) \<Rightarrow> settle (Inr ()) s5))
              | (Inl err, s3) \<Rightarrow> settle (Inr ()) (onError (ErrObj err) s3)))"

definition start :: "error + session \<Rightarrow> state \<Rightarrow> (error + unit) \<times> state" where
  "start spawned s = start_settle spawned (start_begin s)"

subsection \<open>The events of the transport\<close>

datatype session_event =
    Notification jsval jsval
  | ErrorEvent error
  | RequestEvent jsval
  | Disconnect

text \<open>One event handled to completion; what a handler throws goes back to the transport
  that called it, and the state stays as the handler left it.\<close>

fun step :: "environment \<Rightarrow> session \<Rightarrow> state \<Rightarrow> session_event \<Rightarrow> state" where
  "step env sess s (Notification method args) = snd (onNotification env sess method args s)"
| "step env sess s (ErrorEvent err) = onError (ErrObj err) s"
| "step env sess s (RequestEvent method) = onRequest method s"
| "step env sess s Disconnect = onDisconnect s"

definition run :: "environment \<Rightarrow> session \<Rightarrow> state \<Rightarrow> session_event list \<Rightarrow> state" where
  "run env sess s evs = foldl (step env sess) s evs"

section \<open>Observations on the trace\<close>

fun isRequest :: "effect \<Rightarrow> bool" where
  "isRequest (Request name args) = True"
| "isRequest _ = False"

definition requests :: "state \<Rightarrow> effect list" where
  "requests s = filter isRequest (trace s)"

fun isErrorDispatch :: "effect \<Rightarrow> bool" where
  "isErrorDispatch (Dispatch (OnError err)) = True"
| "isErrorDispatch _ = False"

fun isLeaveDispatch :: "effect \<Rightarrow> bool" where
  "isLeaveDispatch (Dispatch OnLeave) = True"
| "isLeaveDispatch _ = False"

text \<open>What a handler does to the \<^verbatim>\<open>_isLeaving\<close> flag and to the Leave signals on the trace:
  with \<open>leave\<close> it sets the flag and dispatches one Leave, without it changes neither.\<close>

definition leaveEffect :: "bool \<Rightarrow> state \<Rightarrow> state \<Rightarrow> bool" where
  "leaveEffect leave s s' \<longleftrightarrow>
     isLeaving s' = (isLeaving s \<or> leave)
     \<and> filter isLeaveDispatch (trace s') =
         filter isLeaveDispatch (trace s) @ (if leave then [Dispatch OnLeave] else [])"

text \<open>The case labels of the switch in \<^verbatim>\<open>_handleNotification\<close> and the sub-methods that
  the \<^verbatim>\<open>oni_plugin_notify\<close> branch tests for.\<close>

definition redrawCommandNames :: "string list" where
  "redrawCommandNames =
     [''cursor_goto'', ''put'', ''set_scroll_region'', ''scroll'', ''highlight_set'', ''resize'',
      ''set_title'', ''set_icon'', ''eol_clear'', ''clear'', ''mouse_on'', ''update_bg'',
      ''update_fg'', ''mode_change'', ''popupmenu_select'', ''popupmenu_hide'',
      ''popupmenu_show'', ''tabline_update'', ''bell'']"

definition pluginMethodNames :: "string list" where
  "pluginMethodNames =
     [''buffer_update'', ''oni_yank'', ''oni_command'', ''event'', ''incremental_buffer_update'']"

text \<open>What the redraw interpreter can put on the trace.\<close>

fun redrawEffect :: "effect \<Rightarrow> bool" where
  "redrawEffect (EmitAction act) = True"
| "redrawEffect (EmitSetTitle title) = True"
| "redrawEffect (EmitTablineUpdate cur tabs) = True"
| "redrawEffect (Dispatch (OnModeChanged m)) = True"
| "redrawEffect (Dispatch (OnSelectPopupMenu i)) = True"
| "redrawEffect (Dispatch OnHidePopupMenu) = True"
| "redrawEffect (Dispatch (OnShowPopupMenu i)) = True"
| "redrawEffect SetTimeout = True"
| "redrawEffect (PlayAudio url) = True"
| "redrawEffect (LogWarnAbout p v) = True"
| "redrawEffect _ = False"

text \<open>A state reached from \<open>s\<close> by such effects only: the trace is extended by them, the
  scroll slot may have changed, every other field is as in \<open>s\<close>.\<close>

definition redrawn :: "state \<Rightarrow> state \<Rightarrow> bool" where
  "redrawn s s' \<longleftrightarrow>
     (\<exists>acts. s' = s\<lparr>trace := trace s @ acts, pendingScrollTimeout := pendingScrollTimeout s'\<rparr>
        \<and> list_all redrawEffect acts)"

text \<open>Whether an event of the transport is the plugin notification of the \<^verbatim>\<open>VimLeave\<close>
  autocommand, read the way the handler reads it.\<close>

fun isVimLeave :: "session_event \<Rightarrow> bool" where
  "isVimLeave (Notification method args) =
     (method = JStr ''oni_plugin_notify'' \<and>
      (case index args 0 of
         Inr (JArr pluginArgs) \<Rightarrow>
           nth_or_undefined pluginArgs 0 = JStr ''event'' \<and>
           nth_or_undefined pluginArgs 1 = JStr ''VimLeave''
       | _ \<Rightarrow> False))"
| "isVimLeave _ = False"

text \<open>The last \<open>SetHighlight\<close> action of a trace: the attributes that a consumer applying
  the actions in order is left with.\<close>

fun activeHighlight :: "effect list \<Rightarrow> action option" where
  "activeHighlight [] = None"
| "activeHighlight (EmitAction (SetHighlight b i r u c fg bg) # es) =
     (case activeHighlight es of
        None \<Rightarrow> Some (SetHighlight b i r u c fg bg)
      | Some later \<Rightarrow> Some later)"
| "activeHighlight (e # es) = activeHighlight es"

section \<open>Concrete collaborators for the examples\<close>

text \<open>An engine that reports the given version and answers every request with the given
  value, one whose requests all fail, and a configuration with no bell and no fixed
  size.\<close>

definition engine :: "INeovimApiVersion \<Rightarrow> jsval \<Rightarrow> session" where
  "engine v answer = \<lparr> apiVersion = Inr v, respond = (\<lambda>name args. Inr answer) \<rparr>"

definition brokenEngine :: "INeovimApiVersion \<Rightarrow> session" where
  "brokenEngine v =
     \<lparr> apiVersion = Inr v,
       respond = (\<lambda>name args. Inl (TransportError (JStr ''channel closed''))) \<rparr>"

definition plainEnvironment :: environment where
  "plainEnvironment = \<lparr> bellUrl = JUndefined, fixedSize = None, normalize = (\<lambda>p. p) \<rparr>"



section \<open>Attach negotiation: the capability table\<close>

lemma attachUI_classified:
  assumes "apiVersion sess = Inr v"
    and "getStartupOptionsForVersion (major v) (minor v) (patch v) = Inr opts"
  shows "trace (snd (attachUI sess c r s)) =
           trace s @ [Request ''nvim_get_api_info'' [], ConsoleLog v,
                      Request ''nvim_ui_attach'' [JNum c, JNum r, opts]]"
  using assms
  by (simp add: attachUI_def getApiVersion_def request_def emit_def Let_def split: sum.splits)

lemma attachUI_unclassified:
  assumes "apiVersion sess = Inr v"
    and "getStartupOptionsForVersion (major v) (minor v) (patch v) = Inl e"
  shows "attachUI sess c r s =
           (Inl e, emit (ConsoleLog v) (emit (Request ''nvim_get_api_info'' []) s))"
  using assms
  by (simp add: attachUI_def getApiVersion_def)

text \<open>
  Claim C2. For every version triple: with major at least 0, minor at least 2 and patch at
  least 1 the options are rgb, popupmenu_external and ext_tabline, all true; otherwise
  with major 0 and minor 2 they are rgb and popupmenu_external only; otherwise the
  computation fails with UnsupportedVersion. So (0,2,1) gives three capabilities, (0,2,0)
  two, and (0,1,5) fails. When the engine reports the triple, \<open>attachUI\<close> writes the attach
  request with exactly these options after the geometry, and writes no attach request
  when the triple is not classified.
\<close>

theorem C2_attach_capabilities:
  "(0 \<le> ma \<and> 2 \<le> mi \<and> 1 \<le> pa \<longrightarrow>
      getStartupOptionsForVersion ma mi pa =
        Inr (JObj [(''rgb'', JBool True), (''popupmenu_external'', JBool True),
                   (''ext_tabline'', JBool True)]))
   \<and> (\<not> (0 \<le> ma \<and> 2 \<le> mi \<and> 1 \<le> pa) \<and> ma = 0 \<and> mi = 2 \<longrightarrow>
      getStartupOptionsForVersion ma mi pa =
        Inr (JObj [(''rgb'', JBool True), (''popupmenu_external'', JBool True)]))
   \<and> (\<not> (0 \<le> ma \<and> 2 \<le> mi \<and> 1 \<le> pa) \<and> \<not> (ma = 0 \<and> mi = 2) \<longrightarrow>
      getStartupOptionsForVersion ma mi pa = Inl UnsupportedVersion)
   \<and> getStartupOptionsForVersion 0 2 1 =
        Inr (JObj [(''rgb'', JBool True), (''popupmenu_external'', JBool True),
                   (''ext_tabline'', JBool True)])
   \<and> getStartupOptionsForVersion 0 2 0 =
        Inr (JObj [(''rgb'', JBool True), (''popupmenu_external'', JBool True)])
   \<and> getStartupOptionsForVersion 0 1 5 = Inl UnsupportedVersion
   \<and> (apiVersion sess = Inr \<lparr>major = ma, minor = mi, patch = pa\<rparr> \<longrightarrow>
        (\<forall>opts. getStartupOptionsForVersion ma mi pa = Inr opts \<longrightarrow>
           trace (snd (attachUI sess c r s)) =
             trace s @ [Request ''nvim_get_api_info'' [],
                        ConsoleLog \<lparr>major = ma, minor = mi, patch = pa\<rparr>,
                        Request ''nvim_ui_attach'' [JNum c, JNum r, opts]])
        \<and> (getStartupOptionsForVersion ma mi pa = Inl UnsupportedVersion \<longrightarrow>
             attachUI sess c r s =
               (Inl UnsupportedVersion,
                emit (ConsoleLog \<lparr>major = ma, minor = mi, patch = pa\<rparr>)
                  (emit (Request ''nvim_get_api_info'' []) s))))"
proof -
  have table:
    "(0 \<le> ma \<and> 2 \<le> mi \<and> 1 \<le> pa \<longrightarrow>
        getStartupOptionsForVersion ma mi pa =
          Inr (JObj [(''rgb'', JBool True), (''popupmenu_external'', JBool True),
                     (''ext_tabline'', JBool True)]))
     \<and> (\<not> (0 \<le> ma \<and> 2 \<le> mi \<and> 1 \<le> pa) \<and> ma = 0 \<and> mi = 2 \<longrightarrow>
        getStartupOptionsForVersion ma mi pa =
          Inr (JObj [(''rgb'', JBool True), (''popupmenu_external'', JBool True)]))
     \<and> (\<not> (0 \<le> ma \<and> 2 \<le> mi \<and> 1 \<le> pa) \<and> \<not> (ma = 0 \<and> mi = 2) \<longrightarrow>
        getStartupOptionsForVersion ma mi pa = Inl UnsupportedVersion)"
    by (simp add: getStartupOptionsForVersion_def)
  have examples:
    "getStartupOptionsForVersion 0 2 1 =
        Inr (JObj [(''rgb'', JBool True), (''popupmenu_external'', JBool True),
                   (''ext_tabline'', JBool True)])
     \<and> getStartupOptionsForVersion 0 2 0 =
        Inr (JObj [(''rgb'', JBool True), (''popupmenu_external'', JBool True)])
     \<and> getStartupOptionsForVersion 0 1 5 = Inl UnsupportedVersion"
    by (simp add: getStartupOptionsForVersion_def)
  have attach:
    "apiVersion sess = Inr \<lparr>major = ma, minor = mi, patch = pa\<rparr> \<longrightarrow>
        (\<forall>opts. getStartupOptionsForVersion ma mi pa = Inr opts \<longrightarrow>
           trace (snd (attachUI sess c r s)) =
             trace s @ [Request ''nvim_get_api_info'' [],
                        ConsoleLog \<lparr>major = ma, minor = mi, patch = pa\<rparr>,
                        Request ''nvim_ui_attach'' [JNum c, JNum r, opts]])
        \<and> (getStartupOptionsForVersion ma mi pa = Inl UnsupportedVersion \<longrightarrow>
             attachUI sess c r s =
               (Inl UnsupportedVersion,
                emit (ConsoleLog \<lparr>major = ma, minor = mi, patch = pa\<rparr>)
                  (emit (Request ''nvim_get_api_info'' []) s)))"
    using attachUI_classified [of sess "\<lparr>major = ma, minor = mi, patch = pa\<rparr>" _ c r s]
      attachUI_unclassified [of sess "\<lparr>major = ma, minor = mi, patch = pa\<rparr>" UnsupportedVersion c r s]
    by simp
  from table examples attach show ?thesis by (intro conjI) (elim conjE, assumption)+
qed

theorem C2_attach_capabilities_witness:
  "getStartupOptionsForVersion 3 4 5 =
     Inr (JObj [(''rgb'', JBool True), (''popupmenu_external'', JBool True),
                (''ext_tabline'', JBool True)])
   \<and> getStartupOptionsForVersion 0 2 (- 1) =
     Inr (JObj [(''rgb'', JBool True), (''popupmenu_external'', JBool True)])
   \<and> getStartupOptionsForVersion 1 1 1 = Inl UnsupportedVersion
   \<and> trace (snd (attachUI (engine \<lparr>major = 0, minor = 2, patch = 0\<rparr> JNull) (Fin 80) (Fin 24)
                   (constructor (Fin 800) (Fin 600)))) =
       [Request ''nvim_get_api_info'' [], ConsoleLog \<lparr>major = 0, minor = 2, patch = 0\<rparr>,
        Request ''nvim_ui_attach''
          [JNum (Fin 80), JNum (Fin 24),
           JObj [(''rgb'', JBool True), (''popupmenu_external'', JBool True)]]]
   \<and> fst (attachUI (engine \<lparr>major = 0, minor = 1, patch = 5\<rparr> JNull) (Fin 80) (Fin 24)
             (constructor (Fin 800) (Fin 600))) = Inl UnsupportedVersion"
  using C2_attach_capabilities [of 3 4 5]
    C2_attach_capabilities [of 0 2 "- 1"]
    C2_attach_capabilities [of 1 1 1]
    C2_attach_capabilities [of 0 2 0 "engine \<lparr>major = 0, minor = 2, patch = 0\<rparr> JNull" "Fin 80" "Fin 24"
       "constructor (Fin 800) (Fin 600)"]
    C2_attach_capabilities [of 0 1 5 "engine \<lparr>major = 0, minor = 1, patch = 5\<rparr> JNull" "Fin 80" "Fin 24"
       "constructor (Fin 800) (Fin 600)"]
  by (simp add: engine_def constructor_def)

section \<open>The position getters\<close>

text \<open>
  Claim C10. In every state the \<open>cursorPosition\<close> getter returns row 0 and column 0, and
  \<open>screenToPixels\<close> returns x 0 and y 0 for all arguments: neither reflects the cursor or
  the geometry, also after a \<open>cursor_goto\<close> to (5, 7), after any event of the transport and
  after any resize.
\<close>

theorem C10_position_stubs:
  "cursorPosition s = \<lparr>row = 0, column = 0\<rparr>
   \<and> screenToPixels s r c = \<lparr>pixel_x = 0, pixel_y = 0\<rparr>
   \<and> (handleCommand env (JArr [JStr ''cursor_goto'', JArr [JNum (Fin 5), JNum (Fin 7)]]) s
        = Inr (emit (EmitAction (CursorGoto (JNum (Fin 5)) (JNum (Fin 7)))) s)
      \<and> cursorPosition (emit (EmitAction (CursorGoto (JNum (Fin 5)) (JNum (Fin 7)))) s)
          = \<lparr>row = 0, column = 0\<rparr>)
   \<and> cursorPosition (step env sess s ev) = \<lparr>row = 0, column = 0\<rparr>
   \<and> cursorPosition (resize env w h s) = \<lparr>row = 0, column = 0\<rparr>
   \<and> screenToPixels (resize env w h s) r c = \<lparr>pixel_x = 0, pixel_y = 0\<rparr>"
  by (simp add: cursorPosition_def screenToPixels_def handleCommand_def redrawCommand_def nth_or_undefined_def)


theorem C10_position_stubs_witness:
  "cursorPosition (constructor (Fin 800) (Fin 600)) = \<lparr>row = 0, column = 0\<rparr>
   \<and> screenToPixels (constructor (Fin 800) (Fin 600)) (Fin 3) (Fin 4) = \<lparr>pixel_x = 0, pixel_y = 0\<rparr>
   \<and> cursorPosition
        (step plainEnvironment (engine \<lparr>major = 0, minor = 2, patch = 1\<rparr> JNull)
           (constructor (Fin 800) (Fin 600))
           (Notification (JStr ''redraw'')
              (JArr [JArr [JStr ''cursor_goto'', JArr [JNum (Fin 5), JNum (Fin 7)]]])))
        = \<lparr>row = 0, column = 0\<rparr>"
  using C10_position_stubs [of "constructor (Fin 800) (Fin 600)" "Fin 3" "Fin 4" plainEnvironment
      "engine \<lparr>major = 0, minor = 2, patch = 1\<rparr> JNull"
      "Notification (JStr ''redraw'')
         (JArr [JArr [JStr ''cursor_goto'', JArr [JNum (Fin 5), JNum (Fin 7)]]])"]
  by simp

section \<open>The full buffer update\<close>

lemma requests_emit [simp]:
  "requests (emit e s) = requests s @ (if isRequest e then [e] else [])"
  by (simp add: requests_def emit_def)

lemma onFullBufferUpdate_dropped:
  "js_gt endRange MAX_LINES_FOR_BUFFER_UPDATE \<Longrightarrow>
     onFullBufferUpdate sess context startRange endRange s = (Inr (), s)"
  by (simp add: onFullBufferUpdate_def)

lemma onFullBufferUpdate_failure:
  assumes "\<not> js_gt endRange MAX_LINES_FOR_BUFFER_UPDATE"
    and "getProp context ''bufferNumber'' = Inr b"
    and "respond sess ''nvim_buf_get_lines''
           [b, JNum (js_minus startRange (Fin 1)), JNum endRange, JBool False] = Inl err"
  shows "onFullBufferUpdate sess context startRange endRange s =
           (Inl err, emit (Request ''nvim_buf_get_lines''
                       [b, JNum (js_minus startRange (Fin 1)), JNum endRange, JBool False]) s)"
  using assms by (simp add: onFullBufferUpdate_def request_def)

lemma onFullBufferUpdate_success:
  assumes "\<not> js_gt endRange MAX_LINES_FOR_BUFFER_UPDATE"
    and "getProp context ''bufferNumber'' = Inr b"
    and "respond sess ''nvim_buf_get_lines''
           [b, JNum (js_minus startRange (Fin 1)), JNum endRange, JBool False] = Inr bufferLines"
  shows "onFullBufferUpdate sess context startRange endRange s =
           (Inr (), emit (Dispatch (OnBufferUpdate context bufferLines))
                      (emit (Request ''nvim_buf_get_lines''
                         [b, JNum (js_minus startRange (Fin 1)), JNum endRange, JBool False]) s))"
  using assms by (simp add: onFullBufferUpdate_def request_def)

lemma onFullBufferUpdate_requests:
  assumes "\<not> js_gt endRange MAX_LINES_FOR_BUFFER_UPDATE"
    and "getProp context ''bufferNumber'' = Inr b"
  shows "requests (snd (onFullBufferUpdate sess context startRange endRange s)) =
           requests s @ [Request ''nvim_buf_get_lines''
                           [b, JNum (js_minus startRange (Fin 1)), JNum endRange, JBool False]]"
proof (cases "respond sess ''nvim_buf_get_lines''
           [b, JNum (js_minus startRange (Fin 1)), JNum endRange, JBool False]")
  case (Inl err)
  from onFullBufferUpdate_failure [OF assms Inl] show ?thesis by simp
next
  case (Inr bufferLines)
  from onFullBufferUpdate_success [OF assms Inr] show ?thesis by simp
qed

lemma buffer_update_routed:
  "onNotification env sess (JStr ''oni_plugin_notify'')
     (JArr [JArr [JStr ''buffer_update'', context, JNum startRange, JNum endRange]]) s =
   (Inr (), snd (onFullBufferUpdate sess context startRange endRange s))"
  by (simp add: onNotification_def pluginNotify_def nth_or_undefined_def)

text \<open>
  Claim C3. For every full buffer-update trigger (context, startLine, endLine): when
  endLine is above 5000 the update is dropped (the state, and with it the trace, is
  unchanged, and the promise is fulfilled); otherwise exactly one request is written,
  \<open>nvim_buf_get_lines\<close> for the buffer of the context and the half-open zero-based range
  from startLine - 1 to endLine. Through the notification handler, start 1 and end 5000
  fetch the range from 0 to 5000, and start 1 and end 5001 do nothing.
\<close>

theorem C3_full_buffer_update:
  "(endLine > 5000 \<longrightarrow>
      onFullBufferUpdate sess context (Fin startLine) (Fin endLine) s = (Inr (), s))
   \<and> (\<not> endLine > 5000 \<and> getProp context ''bufferNumber'' = Inr b \<longrightarrow>
      requests (snd (onFullBufferUpdate sess context (Fin startLine) (Fin endLine) s)) =
        requests s @ [Request ''nvim_buf_get_lines''
                        [b, JNum (Fin (startLine - 1)), JNum (Fin endLine), JBool False]])
   \<and> (getProp context ''bufferNumber'' = Inr b \<longrightarrow>
      requests (snd (onNotification env sess (JStr ''oni_plugin_notify'')
                  (JArr [JArr [JStr ''buffer_update'', context, JNum (Fin 1), JNum (Fin 5000)]]) s)) =
        requests s @ [Request ''nvim_buf_get_lines''
                        [b, JNum (Fin 0), JNum (Fin 5000), JBool False]])
   \<and> onNotification env sess (JStr ''oni_plugin_notify'')
        (JArr [JArr [JStr ''buffer_update'', context, JNum (Fin 1), JNum (Fin 5001)]]) s = (Inr (), s)"
proof -
  have gt: "js_gt (Fin endLine) MAX_LINES_FOR_BUFFER_UPDATE = (endLine > 5000)" for endLine
    by (simp add: MAX_LINES_FOR_BUFFER_UPDATE_def)
  have dropped: "endLine > 5000 \<longrightarrow>
      onFullBufferUpdate sess context (Fin startLine) (Fin endLine) s = (Inr (), s)"
    using onFullBufferUpdate_dropped [of "Fin endLine"] by (simp add: gt)
  have fetched: "\<not> endLine > 5000 \<and> getProp context ''bufferNumber'' = Inr b \<longrightarrow>
      requests (snd (onFullBufferUpdate sess context (Fin startLine) (Fin endLine) s)) =
        requests s @ [Request ''nvim_buf_get_lines''
                        [b, JNum (Fin (startLine - 1)), JNum (Fin endLine), JBool False]]"
    using onFullBufferUpdate_requests [of "Fin endLine" "context" b sess "Fin startLine" s]
    by (simp add: gt)
  have at_5000: "getProp context ''bufferNumber'' = Inr b \<longrightarrow>
      requests (snd (onNotification env sess (JStr ''oni_plugin_notify'')
                  (JArr [JArr [JStr ''buffer_update'', context, JNum (Fin 1), JNum (Fin 5000)]]) s)) =
        requests s @ [Request ''nvim_buf_get_lines''
                        [b, JNum (Fin 0), JNum (Fin 5000), JBool False]]"
    using onFullBufferUpdate_requests [of "Fin 5000" "context" b sess "Fin 1" s]
    by (simp add: gt buffer_update_routed)
  have at_5001: "onNotification env sess (JStr ''oni_plugin_notify'')
        (JArr [JArr [JStr ''buffer_update'', context, JNum (Fin 1), JNum (Fin 5001)]]) s = (Inr (), s)"
    using onFullBufferUpdate_dropped [of "Fin 5001" sess "context" "Fin 1" s]
    by (simp add: gt buffer_update_routed)
  from dropped fetched at_5000 at_5001 show ?thesis by blast
qed

theorem C3_full_buffer_update_witness:
  "onFullBufferUpdate (engine \<lparr>major = 0, minor = 2, patch = 1\<rparr> (JArr [JStr ''line'']))
      (JObj [(''bufferNumber'', JNum (Fin 3))]) (Fin 1) (Fin 6000) (constructor (Fin 800) (Fin 600))
     = (Inr (), constructor (Fin 800) (Fin 600))
   \<and> requests (snd (onFullBufferUpdate (engine \<lparr>major = 0, minor = 2, patch = 1\<rparr> (JArr [JStr ''line'']))
        (JObj [(''bufferNumber'', JNum (Fin 3))]) (Fin 11) (Fin 20) (constructor (Fin 800) (Fin 600))))
     = [Request ''nvim_buf_get_lines'' [JNum (Fin 3), JNum (Fin 10), JNum (Fin 20), JBool False]]
   \<and> requests (snd (onNotification plainEnvironment
        (engine \<lparr>major = 0, minor = 2, patch = 1\<rparr> (JArr [JStr ''line''])) (JStr ''oni_plugin_notify'')
        (JArr [JArr [JStr ''buffer_update'', JObj [(''bufferNumber'', JNum (Fin 3))],
                     JNum (Fin 1), JNum (Fin 5000)]]) (constructor (Fin 800) (Fin 600))))
     = [Request ''nvim_buf_get_lines'' [JNum (Fin 3), JNum (Fin 0), JNum (Fin 5000), JBool False]]"
  using C3_full_buffer_update [of 6000 "engine \<lparr>major = 0, minor = 2, patch = 1\<rparr> (JArr [JStr ''line''])"
      "JObj [(''bufferNumber'', JNum (Fin 3))]" 1 "constructor (Fin 800) (Fin 600)" "JNum (Fin 3)"
      plainEnvironment]
    C3_full_buffer_update [of 20 "engine \<lparr>major = 0, minor = 2, patch = 1\<rparr> (JArr [JStr ''line''])"
      "JObj [(''bufferNumber'', JNum (Fin 3))]" 11 "constructor (Fin 800) (Fin 600)" "JNum (Fin 3)"
      plainEnvironment]
  by (simp add: requests_def constructor_def)

section \<open>A failing fetch\<close>

text \<open>
  Against claim C8 as stated: with an engine whose requests fail, the buffer update for
  lines 1 to 10 of buffer 3 writes the fetch request, the handler returns normally, and
  nothing else is on the trace: no Error event is dispatched.
\<close>

theorem C8_fetch_failure_counterexample:
  "respond (brokenEngine \<lparr>major = 0, minor = 2, patch = 1\<rparr>) ''nvim_buf_get_lines''
      [JNum (Fin 3), JNum (Fin 0), JNum (Fin 10), JBool False]
     = Inl (TransportError (JStr ''channel closed''))
   \<and> onNotification plainEnvironment (brokenEngine \<lparr>major = 0, minor = 2, patch = 1\<rparr>)
        (JStr ''oni_plugin_notify'')
        (JArr [JArr [JStr ''buffer_update'', JObj [(''bufferNumber'', JNum (Fin 3))],
                     JNum (Fin 1), JNum (Fin 10)]])
        (constructor (Fin 800) (Fin 600))
     = (Inr (),
        emit (Request ''nvim_buf_get_lines'' [JNum (Fin 3), JNum (Fin 0), JNum (Fin 10), JBool False])
          (constructor (Fin 800) (Fin 600)))
   \<and> filter isErrorDispatch
        (trace (snd (onNotification plainEnvironment (brokenEngine \<lparr>major = 0, minor = 2, patch = 1\<rparr>)
           (JStr ''oni_plugin_notify'')
           (JArr [JArr [JStr ''buffer_update'', JObj [(''bufferNumber'', JNum (Fin 3))],
                        JNum (Fin 1), JNum (Fin 10)]])
           (constructor (Fin 800) (Fin 600))))) = []"
  by (simp add: onNotification_def pluginNotify_def nth_or_undefined_def onFullBufferUpdate_def
      MAX_LINES_FOR_BUFFER_UPDATE_def request_def brokenEngine_def emit_def constructor_def)

text \<open>
  Claim C8, amended. When a full buffer-update fetch is issued (endLine within the
  ceiling, the context an object) and the request fails, the promise of
  \<open>onFullBufferUpdate\<close> is rejected with that failure and only the request is on the
  trace; the notification handler does not read the promise, so it returns normally with
  that same state, and neither a BufferUpdate nor an Error event is dispatched. When the
  request succeeds, a full BufferUpdate event with the context and the returned lines is
  dispatched after it.
\<close>

theorem C8_fetch_outcomes:
  "\<not> js_gt endRange MAX_LINES_FOR_BUFFER_UPDATE \<and> getProp context ''bufferNumber'' = Inr b \<longrightarrow>
     (\<forall>err. respond sess ''nvim_buf_get_lines''
              [b, JNum (js_minus startRange (Fin 1)), JNum endRange, JBool False] = Inl err \<longrightarrow>
        onFullBufferUpdate sess context startRange endRange s =
          (Inl err, emit (Request ''nvim_buf_get_lines''
                      [b, JNum (js_minus startRange (Fin 1)), JNum endRange, JBool False]) s)
        \<and> onNotification env sess (JStr ''oni_plugin_notify'')
            (JArr [JArr [JStr ''buffer_update'', context, JNum startRange, JNum endRange]]) s =
          (Inr (), emit (Request ''nvim_buf_get_lines''
                      [b, JNum (js_minus startRange (Fin 1)), JNum endRange, JBool False]) s))
     \<and> (\<forall>bufferLines. respond sess ''nvim_buf_get_lines''
              [b, JNum (js_minus startRange (Fin 1)), JNum endRange, JBool False] = Inr bufferLines \<longrightarrow>
        onNotification env sess (JStr ''oni_plugin_notify'')
            (JArr [JArr [JStr ''buffer_update'', context, JNum startRange, JNum endRange]]) s =
          (Inr (), emit (Dispatch (OnBufferUpdate context bufferLines))
                     (emit (Request ''nvim_buf_get_lines''
                        [b, JNum (js_minus startRange (Fin 1)), JNum endRange, JBool False]) s)))"
  using onFullBufferUpdate_failure [of endRange "context" b sess startRange _ s]
    onFullBufferUpdate_success [of endRange "context" b sess startRange _ s]
  by (simp add: buffer_update_routed)

theorem C8_fetch_outcomes_witness:
  "onFullBufferUpdate (brokenEngine \<lparr>major = 0, minor = 2, patch = 1\<rparr>)
       (JObj [(''bufferNumber'', JNum (Fin 3))]) (Fin 1) (Fin 10) (constructor (Fin 800) (Fin 600))
     = (Inl (TransportError (JStr ''channel closed'')),
        emit (Request ''nvim_buf_get_lines'' [JNum (Fin 3), JNum (Fin 0), JNum (Fin 10), JBool False])
          (constructor (Fin 800) (Fin 600)))
   \<and> onNotification plainEnvironment (engine \<lparr>major = 0, minor = 2, patch = 1\<rparr> (JArr [JStr ''line'']))
        (JStr ''oni_plugin_notify'')
        (JArr [JArr [JStr ''buffer_update'', JObj [(''bufferNumber'', JNum (Fin 3))],
                     JNum (Fin 1), JNum (Fin 10)]])
        (constructor (Fin 800) (Fin 600))
     = (Inr (),
        emit (Dispatch (OnBufferUpdate (JObj [(''bufferNumber'', JNum (Fin 3))]) (JArr [JStr ''line''])))
          (emit (Request ''nvim_buf_get_lines'' [JNum (Fin 3), JNum (Fin 0), JNum (Fin 10), JBool False])
             (constructor (Fin 800) (Fin 600))))"
  using C8_fetch_outcomes [of "Fin 10" "JObj [(''bufferNumber'', JNum (Fin 3))]" "JNum (Fin 3)"
      "brokenEngine \<lparr>major = 0, minor = 2, patch = 1\<rparr>" "Fin 1" "constructor (Fin 800) (Fin 600)"
      plainEnvironment]
    C8_fetch_outcomes [of "Fin 10" "JObj [(''bufferNumber'', JNum (Fin 3))]" "JNum (Fin 3)"
      "engine \<lparr>major = 0, minor = 2, patch = 1\<rparr> (JArr [JStr ''line''])" "Fin 1"
      "constructor (Fin 800) (Fin 600)" plainEnvironment]
  by (simp add: MAX_LINES_FOR_BUFFER_UPDATE_def brokenEngine_def engine_def)

section \<open>Startup with an unsupported version\<close>

lemma start_unclassified:
  assumes "apiVersion sess = Inr v"
    and "getStartupOptionsForVersion (major v) (minor v) (patch v) = Inl err"
  shows "fst (start (Inr sess) s) = Inr ()"
    and "initPromise (snd (start (Inr sess) s)) = Some Resolved"
    and "trace (snd (start (Inr sess) s)) =
           trace s @ [LogInfo ''NeovimInstance: Neovim started'', Request ''nvim_get_api_info'' [],
                      ConsoleLog v, LogError (ErrObj err), Dispatch (OnError (ErrObj err))]"
  using assms
  by (simp_all add: start_def start_settle_def start_begin_def settle_def onError_def emit_def
      attachUI_unclassified split_def Let_def)

text \<open>
  Against claim C9 as stated: an engine that reports version 0.1.5 is not classified, and
  the promise that \<open>start\<close> returns is fulfilled, not rejected; the failure is logged and
  dispatched on the Error feed.
\<close>

theorem C9_unsupported_version_counterexample:
  "getStartupOptionsForVersion 0 1 5 = Inl UnsupportedVersion
   \<and> fst (start (Inr (engine \<lparr>major = 0, minor = 1, patch = 5\<rparr> JNull))
             (constructor (Fin 800) (Fin 600))) = Inr ()
   \<and> initPromise (snd (start (Inr (engine \<lparr>major = 0, minor = 1, patch = 5\<rparr> JNull))
             (constructor (Fin 800) (Fin 600)))) = Some Resolved
   \<and> trace (snd (start (Inr (engine \<lparr>major = 0, minor = 1, patch = 5\<rparr> JNull))
             (constructor (Fin 800) (Fin 600)))) =
       [LogInfo ''NeovimInstance: Neovim started'', Request ''nvim_get_api_info'' [],
        ConsoleLog \<lparr>major = 0, minor = 1, patch = 5\<rparr>, LogError (ErrObj UnsupportedVersion),
        Dispatch (OnError (ErrObj UnsupportedVersion))]"
  by (simp add: start_def start_settle_def start_begin_def settle_def onError_def emit_def
      attachUI_def getApiVersion_def getStartupOptionsForVersion_def engine_def constructor_def
      getSize_def split_def Let_def)

text \<open>
  Claim C9, amended. When attach negotiation cannot classify the reported version, the
  UnsupportedVersion failure reaches the rejection handler of the attach: it is logged and
  dispatched on the Error event feed, no attach request is written, and the promise that
  \<open>start\<close> returns is fulfilled.
\<close>

theorem C9_unsupported_version_reported:
  "apiVersion sess = Inr v
   \<and> getStartupOptionsForVersion (major v) (minor v) (patch v) = Inl UnsupportedVersion \<longrightarrow>
     fst (start (Inr sess) s) = Inr ()
     \<and> initPromise (snd (start (Inr sess) s)) = Some Resolved
     \<and> trace (snd (start (Inr sess) s)) =
         trace s @ [LogInfo ''NeovimInstance: Neovim started'', Request ''nvim_get_api_info'' [],
                    ConsoleLog v, LogError (ErrObj UnsupportedVersion),
                    Dispatch (OnError (ErrObj UnsupportedVersion))]"
  using start_unclassified [of sess v UnsupportedVersion s] by simp

theorem C9_unsupported_version_reported_witness:
  "fst (start (Inr (engine \<lparr>major = 0, minor = 1, patch = 5\<rparr> JNull))
          (constructor (Fin 800) (Fin 600))) = Inr ()
   \<and> trace (snd (start (Inr (engine \<lparr>major = 0, minor = 1, patch = 5\<rparr> JNull))
          (constructor (Fin 800) (Fin 600)))) =
       [LogInfo ''NeovimInstance: Neovim started'', Request ''nvim_get_api_info'' [],
        ConsoleLog \<lparr>major = 0, minor = 1, patch = 5\<rparr>, LogError (ErrObj UnsupportedVersion),
        Dispatch (OnError (ErrObj UnsupportedVersion))]"
  using C9_unsupported_version_reported [of "engine \<lparr>major = 0, minor = 1, patch = 5\<rparr> JNull"
      "\<lparr>major = 0, minor = 1, patch = 5\<rparr>" "constructor (Fin 800) (Fin 600)"]
  by (simp add: engine_def getStartupOptionsForVersion_def constructor_def)

section \<open>The redraw interpreter: unknown names and completion\<close>

lemma bindE_eq_Inr: "bindE m f = Inr y \<longleftrightarrow> (\<exists>x. m = Inr x \<and> f x = Inr y)"
  by (cases m) simp_all

lemma redrawCommand_unknown:
  assumes "cmd \<notin> JStr ` set redrawCommandNames"
  shows "redrawCommand env cmd a s = Inr (emit (LogWarnAbout ''Unhandled command: '' cmd) s)"
  using assms by (simp add: redrawCommand_def redrawCommandNames_def image_iff)

lemma redrawn_refl: "redrawn s s"
  unfolding redrawn_def by (rule exI [of _ "[]"]) simp

lemma redrawn_emit: "redrawEffect e \<Longrightarrow> redrawn s s' \<Longrightarrow> redrawn s (emit e s')"
  unfolding redrawn_def emit_def
  apply (erule exE)
  subgoal for acts
    apply (rule exI [of _ "acts @ [e]"])
    apply (erule conjE)
    apply (rule conjI)
     apply (erule ssubst)
     apply simp
    apply simp
    done
  done

lemma redrawn_trans: "redrawn s s' \<Longrightarrow> redrawn s' s'' \<Longrightarrow> redrawn s s''"
  unfolding redrawn_def
  apply (elim exE conjE)
  subgoal for acts acts'
    apply (rule exI [of _ "acts @ acts'"])
    apply (rule conjI)
     apply (erule ssubst [of s''])
     apply (erule ssubst [of s'])
     apply simp
    apply simp
    done
  done

lemma redrawn_dispatchScrollEvent: "redrawn s s' \<Longrightarrow> redrawn s (dispatchScrollEvent s')"
proof -
  assume a: "redrawn s s'"
  have "redrawn s' (dispatchScrollEvent s')"
    unfolding redrawn_def dispatchScrollEvent_def emit_def
    by (cases "pendingScrollTimeout s'") (auto intro: exI [of _ "[]"] exI [of _ "[SetTimeout]"])
  with a show ?thesis by (rule redrawn_trans)
qed

lemma redrawCommand_redrawn:
  assumes "redrawCommand env cmd a s = Inr s'"
  shows "redrawn s s'"
  using assms
  unfolding redrawCommand_def
  by (auto simp add: bindE_eq_Inr Let_def intro!: redrawn_emit redrawn_dispatchScrollEvent redrawn_refl
      split: if_splits)


lemma handleCommand_redrawn:
  assumes "handleCommand env a s = Inr s'"
  shows "redrawn s s'"
  using assms
  by (auto simp add: handleCommand_def bindE_eq_Inr dest: redrawCommand_redrawn split: jsval.splits)

lemma forEachCommand_redrawn: "redrawn s (snd (forEachCommand env xs s))"
proof (induction xs arbitrary: s)
  case Nil
  show ?case by (simp add: redrawn_refl)
next
  case (Cons a xs)
  show ?case
  proof (cases "handleCommand env a s")
    case (Inl e)
    then show ?thesis by (simp add: redrawn_refl)
  next
    case (Inr s')
    from handleCommand_redrawn [OF Inr] Cons.IH [of s'] have "redrawn s (snd (forEachCommand env xs s'))"
      by (rule redrawn_trans)
    with Inr show ?thesis by simp
  qed
qed

lemma handleNotification_redrawn: "redrawn s (snd (handleNotification env args s))"
  by (cases args) (simp_all add: handleNotification_def redrawn_refl forEachCommand_redrawn)

lemma forEachCommand_append:
  "forEachCommand env (xs @ ys) s =
     (case forEachCommand env xs s of
        (Inl e, s1) \<Rightarrow> (Inl e, s1)
      | (Inr u, s1) \<Rightarrow> forEachCommand env ys s1)"
  by (induction xs arbitrary: s) (simp_all split: sum.splits)

lemma handleCommand_unknown:
  assumes "cmd \<notin> JStr ` set redrawCommandNames"
  shows "handleCommand env (JArr (cmd # tuples)) s =
           Inr (emit (LogWarnAbout ''Unhandled command: '' cmd) s)"
  using redrawCommand_unknown [OF assms] by (simp add: handleCommand_def nth_or_undefined_def)

lemma redrawn_trace:
  assumes "redrawn s s'"
  obtains acts where "trace s' = trace s @ acts" and "list_all redrawEffect acts"
proof -
  from assms obtain acts
    where eq: "s' = s\<lparr>trace := trace s @ acts, pendingScrollTimeout := pendingScrollTimeout s'\<rparr>"
      and all: "list_all redrawEffect acts"
    unfolding redrawn_def by blast
  from eq have "trace s' = trace (s\<lparr>trace := trace s @ acts, pendingScrollTimeout := pendingScrollTimeout s'\<rparr>)"
    by simp
  then have "trace s' = trace s @ acts" by simp
  with all that show thesis by blast
qed

lemma redrawn_isLeaving:
  assumes "redrawn s s'"
  shows "isLeaving s' = isLeaving s"
proof -
  from assms obtain acts
    where eq: "s' = s\<lparr>trace := trace s @ acts, pendingScrollTimeout := pendingScrollTimeout s'\<rparr>"
    unfolding redrawn_def by blast
  from eq have "isLeaving s' = isLeaving (s\<lparr>trace := trace s @ acts, pendingScrollTimeout := pendingScrollTimeout s'\<rparr>)"
    by simp
  then show ?thesis by simp
qed

text \<open>
  Claim C4. An unknown name is logged as a warning and skipped. A redraw command whose
  name is none of the case labels adds only the warning to the trace and the loop goes
  on with the commands after it; a plugin notification whose sub-method is none of the
  known ones, and a notification whose method is neither \<open>redraw\<close> nor
  \<open>oni_plugin_notify\<close>, make the handler return normally with only the warning added. No
  Error event is dispatched and no other field of the state changes.
\<close>

theorem C4_unknown_names_skipped:
  "(cmd \<notin> JStr ` set redrawCommandNames \<longrightarrow>
      handleCommand env (JArr (cmd # tuples)) s =
        Inr (emit (LogWarnAbout ''Unhandled command: '' cmd) s)
      \<and> (\<forall>s1. forEachCommand env before s = (Inr (), s1) \<longrightarrow>
            handleNotification env (JArr (before @ JArr (cmd # tuples) # after)) s =
              forEachCommand env after (emit (LogWarnAbout ''Unhandled command: '' cmd) s1)))
   \<and> (pluginMethod \<notin> JStr ` set pluginMethodNames \<longrightarrow>
        onNotification env sess (JStr ''oni_plugin_notify'')
          (JArr (JArr (pluginMethod # subArgs) # others)) s =
        (Inr (), emit (LogWarnAbout ''Unknown event from oni_plugin_notify: '' pluginMethod) s))
   \<and> (method \<noteq> JStr ''redraw'' \<and> method \<noteq> JStr ''oni_plugin_notify'' \<longrightarrow>
        onNotification env sess method args s =
        (Inr (), emit (LogWarnAbout ''Unknown notification: '' method) s))"
proof -
  have redraw: "cmd \<notin> JStr ` set redrawCommandNames \<longrightarrow>
      handleCommand env (JArr (cmd # tuples)) s =
        Inr (emit (LogWarnAbout ''Unhandled command: '' cmd) s)
      \<and> (\<forall>s1. forEachCommand env before s = (Inr (), s1) \<longrightarrow>
            handleNotification env (JArr (before @ JArr (cmd # tuples) # after)) s =
              forEachCommand env after (emit (LogWarnAbout ''Unhandled command: '' cmd) s1))"
    by (simp add: handleCommand_unknown handleNotification_def forEachCommand_append)
  have plugin: "pluginMethod \<notin> JStr ` set pluginMethodNames \<longrightarrow>
        onNotification env sess (JStr ''oni_plugin_notify'')
          (JArr (JArr (pluginMethod # subArgs) # others)) s =
        (Inr (), emit (LogWarnAbout ''Unknown event from oni_plugin_notify: '' pluginMethod) s)"
    by (simp add: onNotification_def pluginNotify_def pluginMethodNames_def nth_or_undefined_def
        image_iff)
  have top: "method \<noteq> JStr ''redraw'' \<and> method \<noteq> JStr ''oni_plugin_notify'' \<longrightarrow>
        onNotification env sess method args s =
        (Inr (), emit (LogWarnAbout ''Unknown notification: '' method) s)"
    by (simp add: onNotification_def)
  from redraw plugin top show ?thesis by blast
qed

text \<open>
  Against claim C5 as stated: in the payload \<open>clear\<close>, \<open>cursor_goto\<close> with no tuple,
  \<open>eol_clear\<close>, the second command reads a field of \<^verbatim>\<open>undefined\<close> and throws; the
  handler ends there with the first action emitted, and no RedrawComplete is dispatched.
\<close>

theorem C5_throwing_command_counterexample:
  "onNotification plainEnvironment (engine \<lparr>major = 0, minor = 2, patch = 1\<rparr> JNull)
      (JStr ''redraw'')
      (JArr [JArr [JStr ''clear''], JArr [JStr ''cursor_goto''], JArr [JStr ''eol_clear'']])
      (constructor (Fin 800) (Fin 600)) =
     (Inl TypeError, emit (EmitAction Clear) (constructor (Fin 800) (Fin 600)))
   \<and> trace (snd (onNotification plainEnvironment (engine \<lparr>major = 0, minor = 2, patch = 1\<rparr> JNull)
        (JStr ''redraw'')
        (JArr [JArr [JStr ''clear''], JArr [JStr ''cursor_goto''], JArr [JStr ''eol_clear'']])
        (constructor (Fin 800) (Fin 600)))) = [EmitAction Clear]
   \<and> Dispatch OnRedrawComplete \<notin>
       set (trace (snd (onNotification plainEnvironment
         (engine \<lparr>major = 0, minor = 2, patch = 1\<rparr> JNull) (JStr ''redraw'')
         (JArr [JArr [JStr ''clear''], JArr [JStr ''cursor_goto''], JArr [JStr ''eol_clear'']])
         (constructor (Fin 800) (Fin 600)))))"
  by (simp add: onNotification_def handleNotification_def handleCommand_def redrawCommand_def
      nth_or_undefined_def emit_def constructor_def)

text \<open>
  Claim C5, amended. For every redraw notification whose payload (all batches and all
  commands) is processed to its end, no command throwing, the handler dispatches exactly
  one RedrawComplete, with no further condition on the payload, as the last effect: the
  interpreter itself puts only redraw effects on the trace, none of them a
  RedrawComplete, and the dispatch follows all of them.
\<close>

theorem C5_redraw_complete:
  "fst (handleNotification env args s) = Inr () \<longrightarrow>
     (\<exists>acts. trace (snd (handleNotification env args s)) = trace s @ acts
        \<and> list_all redrawEffect acts
        \<and> Dispatch OnRedrawComplete \<notin> set acts
        \<and> onNotification env sess (JStr ''redraw'') args s =
            (Inr (), emit (Dispatch OnRedrawComplete) (snd (handleNotification env args s)))
        \<and> trace (snd (onNotification env sess (JStr ''redraw'') args s)) =
            trace s @ acts @ [Dispatch OnRedrawComplete])"
proof
  assume ok: "fst (handleNotification env args s) = Inr ()"
  obtain acts where tr: "trace (snd (handleNotification env args s)) = trace s @ acts"
    and all: "list_all redrawEffect acts"
    using handleNotification_redrawn [of s env args] by (rule redrawn_trace)
  have notin: "Dispatch OnRedrawComplete \<notin> set acts"
  proof
    assume "Dispatch OnRedrawComplete \<in> set acts"
    with all have "redrawEffect (Dispatch OnRedrawComplete)" unfolding list_all_iff by blast
    then show False by simp
  qed
  from ok have on: "onNotification env sess (JStr ''redraw'') args s =
            (Inr (), emit (Dispatch OnRedrawComplete) (snd (handleNotification env args s)))"
    by (cases "handleNotification env args s") (simp add: onNotification_def)
  from on tr have "trace (snd (onNotification env sess (JStr ''redraw'') args s)) =
            trace s @ acts @ [Dispatch OnRedrawComplete]"
    by (simp add: emit_def)
  with tr all notin on
  show "\<exists>acts. trace (snd (handleNotification env args s)) = trace s @ acts
        \<and> list_all redrawEffect acts
        \<and> Dispatch OnRedrawComplete \<notin> set acts
        \<and> onNotification env sess (JStr ''redraw'') args s =
            (Inr (), emit (Dispatch OnRedrawComplete) (snd (handleNotification env args s)))
        \<and> trace (snd (onNotification env sess (JStr ''redraw'') args s)) =
            trace s @ acts @ [Dispatch OnRedrawComplete]"
    by blast
qed


theorem C4_unknown_names_skipped_witness:
  "handleNotification plainEnvironment
      (JArr [JArr [JStr ''clear''], JArr [JStr ''mouse_off'', JArr []], JArr [JStr ''eol_clear'']])
      (constructor (Fin 800) (Fin 600)) =
     (Inr (), emit (EmitAction ClearToEndOfLine)
                (emit (LogWarnAbout ''Unhandled command: '' (JStr ''mouse_off''))
                   (emit (EmitAction Clear) (constructor (Fin 800) (Fin 600)))))
   \<and> onNotification plainEnvironment (engine \<lparr>major = 0, minor = 2, patch = 1\<rparr> JNull)
        (JStr ''oni_plugin_notify'') (JArr [JArr [JStr ''oni_future'', JNum (Fin 1)]])
        (constructor (Fin 800) (Fin 600)) =
     (Inr (), emit (LogWarnAbout ''Unknown event from oni_plugin_notify: '' (JStr ''oni_future''))
                (constructor (Fin 800) (Fin 600)))
   \<and> onNotification plainEnvironment (engine \<lparr>major = 0, minor = 2, patch = 1\<rparr> JNull)
        (JStr ''flush'') (JArr []) (constructor (Fin 800) (Fin 600)) =
     (Inr (), emit (LogWarnAbout ''Unknown notification: '' (JStr ''flush''))
                (constructor (Fin 800) (Fin 600)))"
  using C4_unknown_names_skipped [of "JStr ''mouse_off''" plainEnvironment "[JArr []]"
      "constructor (Fin 800) (Fin 600)" "[JArr [JStr ''clear'']]" "[JArr [JStr ''eol_clear'']]"
      "JStr ''oni_future''" "engine \<lparr>major = 0, minor = 2, patch = 1\<rparr> JNull" "[JNum (Fin 1)]" "[]"
      "JStr ''flush''" "JArr []"]
  by (simp add: redrawCommandNames_def pluginMethodNames_def handleCommand_def redrawCommand_def
      nth_or_undefined_def)

theorem C5_redraw_complete_witness:
  "fst (handleNotification plainEnvironment
          (JArr [JArr [JStr ''clear''], JArr [JStr ''put'', JArr [JStr ''a''], JArr [JStr ''b'']]])
          (constructor (Fin 800) (Fin 600))) = Inr ()
   \<and> trace (snd (onNotification plainEnvironment (engine \<lparr>major = 0, minor = 2, patch = 1\<rparr> JNull)
        (JStr ''redraw'')
        (JArr [JArr [JStr ''clear''], JArr [JStr ''put'', JArr [JStr ''a''], JArr [JStr ''b'']]])
        (constructor (Fin 800) (Fin 600)))) =
       [EmitAction Clear, EmitAction (Put [JStr ''a'', JStr ''b'']), Dispatch OnRedrawComplete]"
  using C5_redraw_complete [of plainEnvironment
      "JArr [JArr [JStr ''clear''], JArr [JStr ''put'', JArr [JStr ''a''], JArr [JStr ''b'']]]"
      "constructor (Fin 800) (Fin 600)" "engine \<lparr>major = 0, minor = 2, patch = 1\<rparr> JNull"]
  by (simp add: handleNotification_def handleCommand_def redrawCommand_def nth_or_undefined_def
      emit_def constructor_def)

section \<open>Which argument tuple a redraw command consumes\<close>

lemma first_tuple_only:
  assumes "cmd \<noteq> JStr ''put''" and "cmd \<noteq> JStr ''highlight_set''" and "cmd \<noteq> JStr ''mode_change''"
  shows "redrawCommand env cmd (t # ts) s = redrawCommand env cmd [t] s"
  using assms by (simp add: redrawCommand_def nth_or_undefined_def)

lemma last_tuple_only:
  assumes "cmd = JStr ''highlight_set'' \<or> cmd = JStr ''mode_change''"
  shows "redrawCommand env cmd (ts @ [t]) s = redrawCommand env cmd [t] s"
  using assms
proof
  assume "cmd = JStr ''highlight_set''"
  then show ?thesis by (simp add: redrawCommand_def last_or_undefined_def)
next
  assume "cmd = JStr ''mode_change''"
  then show ?thesis by (simp add: redrawCommand_def last_or_undefined_def)
qed

lemma mapE_first_fields: "mapE (\<lambda>v. index v 0) (map (\<lambda>c. JArr [c]) cs) = Inr cs"
  by (induction cs) (simp_all add: nth_or_undefined_def)

lemma put_every_tuple:
  "redrawCommand env (JStr ''put'') (map (\<lambda>c. JArr [c]) cs) s = Inr (emit (EmitAction (Put cs)) s)"
  by (simp add: redrawCommand_def mapE_first_fields)

lemma cursor_goto_first:
  "redrawCommand env (JStr ''cursor_goto'') [JArr [ra, ca], JArr [rb, cb]] s =
     Inr (emit (EmitAction (CursorGoto ra ca)) s)"
  by (simp add: redrawCommand_def nth_or_undefined_def)

lemma highlight_set_last:
  assumes "setHighlight h = Inr act"
  shows "handleCommand env (JArr (JStr ''highlight_set'' # ts @ [JArr [h]])) s =
           Inr (emit (EmitAction act) s)"
  using assms
  by (simp add: handleCommand_def redrawCommand_def nth_or_undefined_def last_or_undefined_def)

lemma setHighlight_is_SetHighlight:
  assumes "setHighlight h = Inr act"
  obtains b i r u c fg bg where "act = SetHighlight b i r u c fg bg"
  using assms unfolding setHighlight_def by (auto simp add: bindE_eq_Inr)

lemma activeHighlight_snoc:
  "activeHighlight (es @ [EmitAction (SetHighlight b i r u c fg bg)]) =
     Some (SetHighlight b i r u c fg bg)"
  by (induction es rule: activeHighlight.induct) simp_all

lemma two_highlight_sets:
  assumes "setHighlight ha = Inr acta" and "setHighlight hb = Inr actb"
  shows "forEachCommand env
           [JArr (JStr ''highlight_set'' # tsa @ [JArr [ha]]),
            JArr (JStr ''highlight_set'' # tsb @ [JArr [hb]])] s =
         (Inr (), emit (EmitAction actb) (emit (EmitAction acta) s))"
    and "activeHighlight (trace (emit (EmitAction actb) (emit (EmitAction acta) s))) = Some actb"
proof -
  show "forEachCommand env
           [JArr (JStr ''highlight_set'' # tsa @ [JArr [ha]]),
            JArr (JStr ''highlight_set'' # tsb @ [JArr [hb]])] s =
         (Inr (), emit (EmitAction actb) (emit (EmitAction acta) s))"
    by (simp add: highlight_set_last [OF assms(1)] highlight_set_last [OF assms(2)])
  from assms(2) obtain b i r u c fg bg where "actb = SetHighlight b i r u c fg bg"
    by (rule setHighlight_is_SetHighlight)
  then show "activeHighlight (trace (emit (EmitAction actb) (emit (EmitAction acta) s))) = Some actb"
    using activeHighlight_snoc [of "trace s @ [EmitAction acta]" b i r u c fg bg]
    by (simp add: emit_def)
qed

text \<open>
  Against claim C1 as stated: \<open>put\<close> is neither \<open>highlight_set\<close> nor \<open>mode_change\<close>, and
  with two tuples it consumes both, so the second tuple changes what is emitted.
\<close>

theorem C1_put_counterexample:
  "handleCommand plainEnvironment (JArr [JStr ''put'', JArr [JStr ''a''], JArr [JStr ''b'']])
      (constructor (Fin 800) (Fin 600)) =
     Inr (emit (EmitAction (Put [JStr ''a'', JStr ''b''])) (constructor (Fin 800) (Fin 600)))
   \<and> handleCommand plainEnvironment (JArr [JStr ''put'', JArr [JStr ''a'']])
      (constructor (Fin 800) (Fin 600)) =
     Inr (emit (EmitAction (Put [JStr ''a''])) (constructor (Fin 800) (Fin 600)))
   \<and> handleCommand plainEnvironment (JArr [JStr ''put'', JArr [JStr ''a''], JArr [JStr ''b'']])
      (constructor (Fin 800) (Fin 600)) \<noteq>
     handleCommand plainEnvironment (JArr [JStr ''put'', JArr [JStr ''a'']])
      (constructor (Fin 800) (Fin 600))"
  by (simp add: handleCommand_def redrawCommand_def nth_or_undefined_def emit_def constructor_def)

text \<open>
  Claim C1, amended. A redraw command with several argument tuples is handled as if it
  had only its first tuple, whatever its name, except three: \<open>highlight_set\<close> and
  \<open>mode_change\<close> are handled as if they had only their last tuple, and \<open>put\<close> takes the
  first field of every tuple, in order. So \<open>cursor_goto\<close> with two tuples applies the
  position of the first; and two \<open>highlight_set\<close> commands in one batch emit their
  actions in order, each from its last tuple, which leaves the attributes of the last
  command active.
\<close>

theorem C1_tuple_consumption:
  "(cmd \<noteq> JStr ''put'' \<and> cmd \<noteq> JStr ''highlight_set'' \<and> cmd \<noteq> JStr ''mode_change'' \<longrightarrow>
      redrawCommand env cmd (t # ts) s = redrawCommand env cmd [t] s)
   \<and> (cmd = JStr ''highlight_set'' \<or> cmd = JStr ''mode_change'' \<longrightarrow>
      redrawCommand env cmd (ts @ [t]) s = redrawCommand env cmd [t] s)
   \<and> redrawCommand env (JStr ''put'') (map (\<lambda>c. JArr [c]) cs) s =
       Inr (emit (EmitAction (Put cs)) s)
   \<and> redrawCommand env (JStr ''cursor_goto'') [JArr [ra, ca], JArr [rb, cb]] s =
       Inr (emit (EmitAction (CursorGoto ra ca)) s)
   \<and> (setHighlight ha = Inr acta \<and> setHighlight hb = Inr actb \<longrightarrow>
       forEachCommand env
           [JArr (JStr ''highlight_set'' # tsa @ [JArr [ha]]),
            JArr (JStr ''highlight_set'' # tsb @ [JArr [hb]])] s =
         (Inr (), emit (EmitAction actb) (emit (EmitAction acta) s))
       \<and> activeHighlight (trace (emit (EmitAction actb) (emit (EmitAction acta) s))) = Some actb)"
proof (intro conjI impI)
  assume "cmd \<noteq> JStr ''put'' \<and> cmd \<noteq> JStr ''highlight_set'' \<and> cmd \<noteq> JStr ''mode_change''"
  then show "redrawCommand env cmd (t # ts) s = redrawCommand env cmd [t] s"
    by (elim conjE) (rule first_tuple_only)
next
  assume "cmd = JStr ''highlight_set'' \<or> cmd = JStr ''mode_change''"
  then show "redrawCommand env cmd (ts @ [t]) s = redrawCommand env cmd [t] s"
    by (rule last_tuple_only)
next
  show "redrawCommand env (JStr ''put'') (map (\<lambda>c. JArr [c]) cs) s =
       Inr (emit (EmitAction (Put cs)) s)"
    by (rule put_every_tuple)
next
  show "redrawCommand env (JStr ''cursor_goto'') [JArr [ra, ca], JArr [rb, cb]] s =
       Inr (emit (EmitAction (CursorGoto ra ca)) s)"
    by (rule cursor_goto_first)
next
  assume "setHighlight ha = Inr acta \<and> setHighlight hb = Inr actb"
  then show "forEachCommand env
           [JArr (JStr ''highlight_set'' # tsa @ [JArr [ha]]),
            JArr (JStr ''highlight_set'' # tsb @ [JArr [hb]])] s =
         (Inr (), emit (EmitAction actb) (emit (EmitAction acta) s))"
    by (elim conjE) (rule two_highlight_sets)
next
  assume "setHighlight ha = Inr acta \<and> setHighlight hb = Inr actb"
  then show "activeHighlight (trace (emit (EmitAction actb) (emit (EmitAction acta) s))) = Some actb"
    by (elim conjE) (rule two_highlight_sets)
qed

theorem C1_tuple_consumption_witness:
  "redrawCommand plainEnvironment (JStr ''resize'')
      [JArr [JNum (Fin 80), JNum (Fin 24)], JArr [JNum (Fin 1), JNum (Fin 1)]]
      (constructor (Fin 800) (Fin 600)) =
     Inr (emit (EmitAction (Resize (JNum (Fin 80)) (JNum (Fin 24)))) (constructor (Fin 800) (Fin 600)))
   \<and> redrawCommand plainEnvironment (JStr ''mode_change'')
      [JArr [JStr ''insert''], JArr [JStr ''normal'']] (constructor (Fin 800) (Fin 600)) =
     Inr (emit (Dispatch (OnModeChanged (JStr ''normal'')))
            (emit (EmitAction (ChangeMode (JStr ''normal''))) (constructor (Fin 800) (Fin 600))))
   \<and> activeHighlight (trace (snd (forEachCommand plainEnvironment
        [JArr [JStr ''highlight_set'', JArr [JObj [(''bold'', JBool True)]]],
         JArr [JStr ''highlight_set'', JArr [JObj []], JArr [JObj [(''italic'', JBool True)]]]]
        (constructor (Fin 800) (Fin 600))))) =
     Some (SetHighlight False True False False False JUndefined JUndefined)"
  using C1_tuple_consumption [where cmd = "JStr ''resize''" and env = plainEnvironment
      and t = "JArr [JNum (Fin 80), JNum (Fin 24)]" and ts = "[JArr [JNum (Fin 1), JNum (Fin 1)]]"
      and s = "constructor (Fin 800) (Fin 600)"]
    C1_tuple_consumption [where cmd = "JStr ''mode_change''" and env = plainEnvironment
      and t = "JArr [JStr ''normal'']" and ts = "[JArr [JStr ''insert'']]"
      and s = "constructor (Fin 800) (Fin 600)"]
    C1_tuple_consumption [where env = plainEnvironment and s = "constructor (Fin 800) (Fin 600)"
      and cmd = "JStr ''clear''" and ts = "[]"
      and ha = "JObj [(''bold'', JBool True)]"
      and acta = "SetHighlight True False False False False JUndefined JUndefined"
      and hb = "JObj [(''italic'', JBool True)]"
      and actb = "SetHighlight False True False False False JUndefined JUndefined"
      and tsa = "[]" and tsb = "[JArr [JObj []]]"]
  by (simp add: redrawCommand_def setHighlight_def nth_or_undefined_def last_or_undefined_def)

section \<open>Leaving and disconnecting\<close>

lemma leaveEffect_refl: "leaveEffect False s s"
  by (simp add: leaveEffect_def)

lemma leaveEffect_emit:
  "\<not> isLeaveDispatch e \<Longrightarrow> leaveEffect b s s' \<Longrightarrow> leaveEffect b s (emit e s')"
  by (simp add: leaveEffect_def emit_def)

lemma redrawEffect_not_leave: "redrawEffect e \<Longrightarrow> \<not> isLeaveDispatch e"
  by (cases e rule: isLeaveDispatch.cases) simp_all

lemma redrawn_leaveEffect:
  assumes "redrawn s s'"
  shows "leaveEffect False s s'"
proof -
  from assms obtain acts where tr: "trace s' = trace s @ acts" and all: "list_all redrawEffect acts"
    by (rule redrawn_trace)
  from all have "filter isLeaveDispatch acts = []"
    by (induction acts) (simp_all add: redrawEffect_not_leave)
  with tr redrawn_isLeaving [OF assms] show ?thesis by (simp add: leaveEffect_def)
qed

lemma onFullBufferUpdate_leaveEffect:
  "leaveEffect False s (snd (onFullBufferUpdate sess ctx startRange endRange s))"
  by (simp add: onFullBufferUpdate_def request_def leaveEffect_refl leaveEffect_emit
      split: sum.splits)

lemma updateProcessDirectory_resume_leaveEffect:
  "leaveEffect False s s' \<Longrightarrow> leaveEffect False s (snd (updateProcessDirectory_resume env answer s'))"
  by (simp add: updateProcessDirectory_resume_def leaveEffect_emit split: sum.splits jsval.splits)

lemma pluginNotify_leaveEffect:
  "leaveEffect (pluginMethod = JStr ''event'' \<and> nth_or_undefined rest 0 = JStr ''VimLeave'')
     s (snd (pluginNotify env sess pluginMethod rest s))"
proof (cases "pluginMethod = JStr ''event''")
  case False
  then show ?thesis
    by (simp add: pluginNotify_def leaveEffect_refl leaveEffect_emit onFullBufferUpdate_leaveEffect
        split: jsval.splits)
next
  case event: True
  show ?thesis
  proof (cases "nth_or_undefined rest 0 = JStr ''VimLeave''")
    case True
    with event show ?thesis
      by (simp add: pluginNotify_def leaveEffect_def emit_def Let_def)
  next
    case False
    with event show ?thesis
      by (simp add: pluginNotify_def Let_def updateProcessDirectory_request_def leaveEffect_refl
          leaveEffect_emit updateProcessDirectory_resume_leaveEffect)
  qed
qed

lemma nth_or_undefined_drop:
  "nth_or_undefined (drop (Suc 0) xs) 0 = nth_or_undefined xs (Suc 0)"
  by (cases xs) (simp_all add: nth_or_undefined_def)

lemma onNotification_leaveEffect:
  "leaveEffect (isVimLeave (Notification method args)) s (snd (onNotification env sess method args s))"
proof (cases "method = JStr ''redraw''")
  case True
  have "leaveEffect False s (snd (handleNotification env args s))"
    using handleNotification_redrawn by (rule redrawn_leaveEffect)
  with True show ?thesis
    by (cases "handleNotification env args s")
      (auto simp add: onNotification_def leaveEffect_emit split: sum.splits)
next
  case notRedraw: False
  show ?thesis
  proof (cases "method = JStr ''oni_plugin_notify''")
    case False
    with notRedraw show ?thesis
      by (simp add: onNotification_def leaveEffect_refl leaveEffect_emit)
  next
    case True
    show ?thesis
    proof (cases "index args 0")
      case (Inl e)
      with True show ?thesis by (simp add: onNotification_def leaveEffect_refl)
    next
      case (Inr pa)
      show ?thesis
      proof (cases pa)
        case (JArr pluginArgs)
        with True Inr pluginNotify_leaveEffect [of "nth_or_undefined pluginArgs 0" "drop 1 pluginArgs" s env sess]
        show ?thesis by (simp add: onNotification_def nth_or_undefined_drop)
      qed (use True Inr in \<open>simp_all add: onNotification_def leaveEffect_refl\<close>)
    qed
  qed
qed


lemma step_leaveEffect: "leaveEffect (isVimLeave ev) s (step env sess s ev)"
proof (cases ev)
  case (Notification m a)
  then show ?thesis using onNotification_leaveEffect [of m a s env sess] by simp
next
  case (ErrorEvent err)
  then show ?thesis by (simp add: onError_def leaveEffect_emit leaveEffect_refl)
next
  case (RequestEvent m)
  then show ?thesis by (simp add: onRequest_def leaveEffect_emit leaveEffect_refl)
next
  case Disconnect
  then show ?thesis by (simp add: onDisconnect_def onError_def leaveEffect_emit leaveEffect_refl)
qed

lemma run_snoc: "run env sess s (evs @ [ev]) = step env sess (run env sess s evs) ev"
  by (simp add: run_def)

lemma run_leaveEffect: "leaveEffect False s (run env sess s evs)"
  if "\<forall>ev \<in> set evs. \<not> isVimLeave ev"
  using that
proof (induction evs rule: rev_induct)
  case Nil
  show ?case by (simp add: run_def leaveEffect_refl)
next
  case (snoc ev evs)
  then have a: "leaveEffect False s (run env sess s evs)" and b: "\<not> isVimLeave ev" by simp_all
  from b step_leaveEffect [of ev "run env sess s evs" env sess]
  have "leaveEffect False (run env sess s evs) (step env sess (run env sess s evs) ev)" by simp
  with a show ?case by (simp add: run_snoc leaveEffect_def)
qed

lemma run_stays_leaving: "isLeaving s \<Longrightarrow> isLeaving (run env sess s evs)"
proof (induction evs rule: rev_induct)
  case Nil
  then show ?case by (simp add: run_def)
next
  case (snoc ev evs)
  then have "isLeaving (run env sess s evs)" by simp
  with step_leaveEffect [of ev "run env sess s evs" env sess] show ?case
    by (simp add: run_snoc leaveEffect_def)
qed

lemma run_keeps_leave_signal:
  "Dispatch OnLeave \<in> set (trace s) \<Longrightarrow> Dispatch OnLeave \<in> set (trace (run env sess s evs))"
proof (induction evs rule: rev_induct)
  case Nil
  then show ?case by (simp add: run_def)
next
  case (snoc ev evs)
  then have "Dispatch OnLeave \<in> set (filter isLeaveDispatch (trace (run env sess s evs)))" by simp
  with step_leaveEffect [of ev "run env sess s evs" env sess]
  have "Dispatch OnLeave \<in> set (filter isLeaveDispatch (trace (step env sess (run env sess s evs) ev)))"
    unfolding leaveEffect_def by simp
  then show ?case by (simp add: run_snoc)
qed

lemma vimLeave_step:
  "step env sess s (Notification (JStr ''oni_plugin_notify'')
                      (JArr [JArr [JStr ''event'', JStr ''VimLeave'', ctx]])) =
     s\<lparr>isLeaving := True,
       trace := trace s @ [Dispatch OnLeave, NotifyAutocommand (JStr ''VimLeave'') ctx,
                           EmitEvent (JStr ''VimLeave'') ctx]\<rparr>"
  by (simp add: onNotification_def pluginNotify_def nth_or_undefined_def emit_def Let_def)

text \<open>
  Claim C6. The plugin notification of the \<open>VimLeave\<close> event sets the flag and dispatches
  a Leave signal; whatever events follow, the flag stays set (no handler clears it), the
  Leave signal stays on the trace, and a disconnect then changes nothing: no Error. From
  a state where the flag is not set, after any events none of which is the \<open>VimLeave\<close>
  notification, the flag is still not set, no Leave signal has been added, and a
  disconnect logs and dispatches exactly one Error and no Leave.
\<close>

theorem C6_leave_and_disconnect:
  "(let left = step env sess s (Notification (JStr ''oni_plugin_notify'')
                                  (JArr [JArr [JStr ''event'', JStr ''VimLeave'', ctx]]));
        s1 = run env sess left evs
    in isLeaving left
       \<and> trace left = trace s @ [Dispatch OnLeave, NotifyAutocommand (JStr ''VimLeave'') ctx,
                                  EmitEvent (JStr ''VimLeave'') ctx]
       \<and> isLeaving s1
       \<and> Dispatch OnLeave \<in> set (trace s1)
       \<and> step env sess s1 Disconnect = s1)
   \<and> (\<not> isLeaving s \<and> (\<forall>ev \<in> set evs. \<not> isVimLeave ev) \<longrightarrow>
        (let s1 = run env sess s evs
         in \<not> isLeaving s1
            \<and> filter isLeaveDispatch (trace s1) = filter isLeaveDispatch (trace s)
            \<and> trace (step env sess s1 Disconnect) =
                trace s1 @
                  [LogError (ErrStr ''Neovim disconnected. This likely means that the Neovim process crashed.''),
                   Dispatch (OnError (ErrStr ''Neovim disconnected. This likely means that the Neovim process crashed.''))]
            \<and> filter isLeaveDispatch (trace (step env sess s1 Disconnect)) =
                filter isLeaveDispatch (trace s)))
   \<and> (isLeaving s \<longrightarrow> isLeaving (step env sess s ev) \<and> isLeaving (run env sess s evs))"
proof (intro conjI)
  let ?left = "step env sess s (Notification (JStr ''oni_plugin_notify'')
                                  (JArr [JArr [JStr ''event'', JStr ''VimLeave'', ctx]]))"
  let ?s1 = "run env sess ?left evs"
  have left: "isLeaving ?left"
    and tr: "trace ?left = trace s @ [Dispatch OnLeave, NotifyAutocommand (JStr ''VimLeave'') ctx,
                                  EmitEvent (JStr ''VimLeave'') ctx]"
    unfolding vimLeave_step by simp_all
  from left have l1: "isLeaving ?s1" by (rule run_stays_leaving)
  from tr have "Dispatch OnLeave \<in> set (trace ?left)" by simp
  then have sig: "Dispatch OnLeave \<in> set (trace ?s1)" by (rule run_keeps_leave_signal)
  from l1 have "step env sess ?s1 Disconnect = ?s1" by (simp add: onDisconnect_def)
  with left tr l1 sig
  show "let left = ?left; s1 = run env sess left evs
    in isLeaving left
       \<and> trace left = trace s @ [Dispatch OnLeave, NotifyAutocommand (JStr ''VimLeave'') ctx,
                                  EmitEvent (JStr ''VimLeave'') ctx]
       \<and> isLeaving s1
       \<and> Dispatch OnLeave \<in> set (trace s1)
       \<and> step env sess s1 Disconnect = s1"
    by (simp add: Let_def)
next
  show "\<not> isLeaving s \<and> (\<forall>ev \<in> set evs. \<not> isVimLeave ev) \<longrightarrow>
        (let s1 = run env sess s evs
         in \<not> isLeaving s1
            \<and> filter isLeaveDispatch (trace s1) = filter isLeaveDispatch (trace s)
            \<and> trace (step env sess s1 Disconnect) =
                trace s1 @
                  [LogError (ErrStr ''Neovim disconnected. This likely means that the Neovim process crashed.''),
                   Dispatch (OnError (ErrStr ''Neovim disconnected. This likely means that the Neovim process crashed.''))]
            \<and> filter isLeaveDispatch (trace (step env sess s1 Disconnect)) =
                filter isLeaveDispatch (trace s))"
  proof
    assume a: "\<not> isLeaving s \<and> (\<forall>ev \<in> set evs. \<not> isVimLeave ev)"
    then have "leaveEffect False s (run env sess s evs)" by (simp add: run_leaveEffect)
    with a have nl: "\<not> isLeaving (run env sess s evs)"
      and same: "filter isLeaveDispatch (trace (run env sess s evs)) = filter isLeaveDispatch (trace s)"
      by (simp_all add: leaveEffect_def)
    from nl same show "let s1 = run env sess s evs
         in \<not> isLeaving s1
            \<and> filter isLeaveDispatch (trace s1) = filter isLeaveDispatch (trace s)
            \<and> trace (step env sess s1 Disconnect) =
                trace s1 @
                  [LogError (ErrStr ''Neovim disconnected. This likely means that the Neovim process crashed.''),
                   Dispatch (OnError (ErrStr ''Neovim disconnected. This likely means that the Neovim process crashed.''))]
            \<and> filter isLeaveDispatch (trace (step env sess s1 Disconnect)) =
                filter isLeaveDispatch (trace s)"
      by (simp add: Let_def onDisconnect_def onError_def emit_def)
  qed
next
  show "isLeaving s \<longrightarrow> isLeaving (step env sess s ev) \<and> isLeaving (run env sess s evs)"
    using step_leaveEffect [of ev s env sess] run_stays_leaving [of s env sess evs]
    by (simp add: leaveEffect_def)
qed

theorem C6_leave_and_disconnect_witness:
  "\<not> isLeaving (constructor (Fin 800) (Fin 600))
   \<and> \<not> isVimLeave (Notification (JStr ''redraw'') (JArr [JArr [JStr ''clear'']]))
   \<and> trace (step plainEnvironment (engine \<lparr>major = 0, minor = 2, patch = 1\<rparr> JNull)
        (run plainEnvironment (engine \<lparr>major = 0, minor = 2, patch = 1\<rparr> JNull)
           (constructor (Fin 800) (Fin 600))
           [Notification (JStr ''redraw'') (JArr [JArr [JStr ''clear'']])])
        Disconnect) =
       [EmitAction Clear, Dispatch OnRedrawComplete,
        LogError (ErrStr ''Neovim disconnected. This likely means that the Neovim process crashed.''),
        Dispatch (OnError (ErrStr ''Neovim disconnected. This likely means that the Neovim process crashed.''))]
   \<and> trace (step plainEnvironment (engine \<lparr>major = 0, minor = 2, patch = 1\<rparr> JNull)
        (run plainEnvironment (engine \<lparr>major = 0, minor = 2, patch = 1\<rparr> JNull)
           (step plainEnvironment (engine \<lparr>major = 0, minor = 2, patch = 1\<rparr> JNull)
              (constructor (Fin 800) (Fin 600))
              (Notification (JStr ''oni_plugin_notify'')
                 (JArr [JArr [JStr ''event'', JStr ''VimLeave'', JNull]])))
           [Notification (JStr ''redraw'') (JArr [JArr [JStr ''clear'']])])
        Disconnect) =
       [Dispatch OnLeave, NotifyAutocommand (JStr ''VimLeave'') JNull,
        EmitEvent (JStr ''VimLeave'') JNull, EmitAction Clear, Dispatch OnRedrawComplete]"
  using C6_leave_and_disconnect [of plainEnvironment "engine \<lparr>major = 0, minor = 2, patch = 1\<rparr> JNull"
      "constructor (Fin 800) (Fin 600)" JNull
      "[Notification (JStr ''redraw'') (JArr [JArr [JStr ''clear'']])]" Disconnect]
  by (simp add: Let_def run_def onNotification_def pluginNotify_def handleNotification_def
      handleCommand_def redrawCommand_def nth_or_undefined_def emit_def constructor_def
      onDisconnect_def onError_def)

section \<open>Resizing\<close>

lemma requests_update [simp]:
  "requests (s\<lparr>rows := r\<rparr>) = requests s"
  "requests (s\<lparr>cols := c\<rparr>) = requests s"
  "requests (s\<lparr>lastWidthInPixels := w\<rparr>) = requests s"
  "requests (s\<lparr>lastHeightInPixels := h\<rparr>) = requests s"
  "requests (s\<lparr>initPromiseThens := q\<rparr>) = requests s"
  by (simp_all add: requests_def)

lemma emit_fields [simp]:
  "rows (emit e s) = rows s" "cols (emit e s) = cols s" "initPromise (emit e s) = initPromise s"
  "initPromiseThens (emit e s) = initPromiseThens s"
  "lastWidthInPixels (emit e s) = lastWidthInPixels s"
  "lastHeightInPixels (emit e s) = lastHeightInPixels s"
  "fontWidthInPixels (emit e s) = fontWidthInPixels s"
  "fontHeightInPixels (emit e s) = fontHeightInPixels s"
  by (simp_all add: emit_def)












end
